theory Spec2Isabelle
  imports Complex_Main "HOL-Library.Log_Nat"
begin

section \<open>The request-rate limiter (supabase/functions/rate-limiter/index.ts)\<close>

text \<open>
  The edge function keeps one fixed-window counter per key in a module-level
  \<^verbatim>\<open>Map\<close>. The model passes that map explicitly: every function that reads or
  writes \<^verbatim>\<open>rateLimitStore\<close> takes the store and returns the new one, and every
  reading of \<^verbatim>\<open>Date.now()\<close> is an argument.

  Header values and URL pathnames are byte strings, so they are HOL strings.
  Clock readings are time values: integer milliseconds in the range of \<^verbatim>\<open>Date\<close>,
  where the arithmetic of doubles is exact. Counts are naturals.
\<close>

subsection \<open>Configuration\<close>

text \<open>
  The four rules carry a Spanish message each; the message never takes part in a
  decision, so it is kept as a tag naming the rule it belongs to.
\<close>

datatype rule_message = MsgAnalyzeReceipt | MsgSignup | MsgSignin | MsgDefault

record RateLimitRule =
  windowMs :: int
  maxRequests :: nat
  message :: rule_message

definition default_rule :: RateLimitRule where
  "default_rule = \<lparr>windowMs = 60000, maxRequests = 30, message = MsgDefault\<rparr>"

text \<open>
  \<^verbatim>\<open>rateLimitConfig[endpoint]\<close> is a property read on an object literal. It finds
  one of the four own keys, or else a property that every object inherits from
  \<^verbatim>\<open>Object.prototype\<close>, which is a function and no rule, or else nothing
  (\<^verbatim>\<open>undefined\<close>, here \<open>None\<close>). The inherited names are those of the Deno
  runtime, which removes \<^verbatim>\<open>__proto__\<close>. A URL pathname starts with a slash, so
  the handler itself never looks up an inherited name.
\<close>

datatype config_value = Rule RateLimitRule | InheritedFunction

definition object_prototype_names :: "string list" where
  "object_prototype_names =
     [''constructor'', ''hasOwnProperty'', ''isPrototypeOf'', ''propertyIsEnumerable'',
      ''toLocaleString'', ''toString'', ''valueOf'', ''__defineGetter__'',
      ''__defineSetter__'', ''__lookupGetter__'', ''__lookupSetter__'']"

definition rateLimitConfig :: "string \<Rightarrow> config_value option" where
  "rateLimitConfig endpoint =
     (if endpoint = ''/analyze-receipt''
        then Some (Rule \<lparr>windowMs = 60000, maxRequests = 10, message = MsgAnalyzeReceipt\<rparr>)
      else if endpoint = ''/auth/signup''
        then Some (Rule \<lparr>windowMs = 300000, maxRequests = 3, message = MsgSignup\<rparr>)
      else if endpoint = ''/auth/signin''
        then Some (Rule \<lparr>windowMs = 300000, maxRequests = 5, message = MsgSignin\<rparr>)
      else if endpoint = ''default''
        then Some (Rule default_rule)
      else if endpoint \<in> set object_prototype_names
        then Some InheritedFunction
      else None)"

text \<open>
  \<^verbatim>\<open>rateLimitConfig[endpoint] || rateLimitConfig.default\<close>: a rule and a function
  are both truthy.
\<close>

definition config_for :: "string \<Rightarrow> config_value" where
  "config_for endpoint =
     (case rateLimitConfig endpoint of Some c \<Rightarrow> c | None \<Rightarrow> Rule default_rule)"

subsection \<open>The store and \<^verbatim>\<open>isRateLimited\<close>\<close>

text \<open>
  A stored reset time is \<^verbatim>\<open>now + config.windowMs\<close>: a time value, or \<^verbatim>\<open>NaN\<close>
  when \<open>config\<close> is an inherited function, whose \<^verbatim>\<open>windowMs\<close> is \<^verbatim>\<open>undefined\<close>.
\<close>

datatype jstime = Time int | NaNTime

record StoreEntry =
  count :: nat
  resetTime :: jstime

type_synonym rateLimitStore = "string \<rightharpoonup> StoreEntry"

definition getRateLimitKey :: "string \<Rightarrow> string \<Rightarrow> string" where
  "getRateLimitKey clientIP endpoint = clientIP @ '':'' @ endpoint"

record LimitResult =
  limited :: bool
  result_message :: "rule_message option"
  result_resetTime :: "jstime option"

definition not_limited :: LimitResult where
  "not_limited = \<lparr>limited = False, result_message = None, result_resetTime = None\<rparr>"

text \<open>
  \<^verbatim>\<open>now + config.windowMs\<close>, \<^verbatim>\<open>now > entry.resetTime\<close>,
  \<^verbatim>\<open>entry.count < config.maxRequests\<close> and \<^verbatim>\<open>config.message\<close>. A comparison with
  \<^verbatim>\<open>NaN\<close> or with \<^verbatim>\<open>undefined\<close> is false.
\<close>

fun window_end :: "int \<Rightarrow> config_value \<Rightarrow> jstime" where
  "window_end now (Rule r) = Time (now + windowMs r)"
| "window_end now InheritedFunction = NaNTime"

fun is_after :: "int \<Rightarrow> jstime \<Rightarrow> bool" where
  "is_after now (Time t) = (now > t)"
| "is_after now NaNTime = False"

fun below_limit :: "nat \<Rightarrow> config_value \<Rightarrow> bool" where
  "below_limit c (Rule r) = (c < maxRequests r)"
| "below_limit c InheritedFunction = False"

fun message_of :: "config_value \<Rightarrow> rule_message option" where
  "message_of (Rule r) = Some (message r)"
| "message_of InheritedFunction = None"

text \<open>
  The three branches of the source, in its order: no entry or an expired one
  (\<^verbatim>\<open>now > entry.resetTime\<close>) starts a new window; an entry below the limit is
  incremented; otherwise the call is limited and the store is left as it is.
\<close>

definition isRateLimited ::
  "string \<Rightarrow> string \<Rightarrow> int \<Rightarrow> rateLimitStore \<Rightarrow> LimitResult \<times> rateLimitStore" where
  "isRateLimited clientIP endpoint now store =
     (let config = config_for endpoint;
          key = getRateLimitKey clientIP endpoint;
          fresh = \<lparr>count = 1, resetTime = window_end now config\<rparr>
      in case store key of
           None \<Rightarrow> (not_limited, store(key \<mapsto> fresh))
         | Some entry \<Rightarrow>
             if is_after now (resetTime entry) then (not_limited, store(key \<mapsto> fresh))
             else if below_limit (count entry) config
               then (not_limited, store(key \<mapsto> entry\<lparr>count := count entry + 1\<rparr>))
             else (\<lparr>limited = True, result_message = message_of config,
                    result_resetTime = Some (resetTime entry)\<rparr>, store))"

text \<open>A sequence of calls for one client and endpoint, at the given clock readings.\<close>

fun isRateLimited_seq ::
  "string \<Rightarrow> string \<Rightarrow> int list \<Rightarrow> rateLimitStore \<Rightarrow> LimitResult list \<times> rateLimitStore" where
  "isRateLimited_seq clientIP endpoint [] store = ([], store)"
| "isRateLimited_seq clientIP endpoint (now # nows) store =
     (case isRateLimited clientIP endpoint now store of
        (r, store') \<Rightarrow>
          (case isRateLimited_seq clientIP endpoint nows store' of
             (rs, store'') \<Rightarrow> (r # rs, store'')))"

text \<open>The stores the process can hold: empty at start, changed only by calls.\<close>

inductive reachable :: "rateLimitStore \<Rightarrow> bool" where
  reachable_empty: "reachable Map.empty"
| reachable_call:
    "reachable store \<Longrightarrow> reachable (snd (isRateLimited clientIP endpoint now store))"

subsection \<open>The handler\<close>

text \<open>
  \<^verbatim>\<open>Math.ceil(x / 1000)\<close> on an integer number of milliseconds. For an integer
  \<open>x\<close> of magnitude below \<open>2^53\<close> the rounded quotient lies less than \<open>1 / 1000\<close>
  from the exact one and so never crosses an integer: the result is the ceiling of
  the exact quotient.
\<close>

definition retryAfter :: "int \<Rightarrow> int \<Rightarrow> int" where
  "retryAfter reset now = - ((- (reset - now)) div 1000)"

text \<open>
  What the handler reads of a request: the two headers (\<^verbatim>\<open>headers.get\<close> gives
  \<^verbatim>\<open>null\<close> for an absent header, here \<open>None\<close>) and the pathname. The remaining
  fields stand for everything else a request carries, which the handler never
  reads: the peer address the connection really comes from, the method and the
  other headers.
\<close>

record Request =
  x_forwarded_for :: "string option"
  x_real_ip :: "string option"
  pathname :: string
  peer_address :: string
  http_method :: string
  other_headers :: "(string \<times> string) list"

text \<open>
  JavaScript's \<^verbatim>\<open>a || b\<close> on a header reading: \<^verbatim>\<open>null\<close> and the empty string
  are both falsy.
\<close>

definition js_or :: "string option \<Rightarrow> string \<Rightarrow> string" where
  "js_or a b = (case a of None \<Rightarrow> b | Some v \<Rightarrow> if v = [] then b else v)"

definition clientIP_of :: "Request \<Rightarrow> string" where
  "clientIP_of req = js_or (x_forwarded_for req) (js_or (x_real_ip req) ''unknown'')"

text \<open>
  The three responses: status 200 \<^verbatim>\<open>{allowed: true}\<close>; status 429 with the
  message and \<^verbatim>\<open>retryAfter\<close> of its body and its \<^verbatim>\<open>Retry-After\<close>,
  \<^verbatim>\<open>X-RateLimit-Limit\<close> and \<^verbatim>\<open>X-RateLimit-Reset\<close> headers; status 500 from the
  \<^verbatim>\<open>catch\<close> block.
\<close>

datatype RateLimiterResponse =
    Allowed200
  | TooMany429 (body_message: "rule_message option") (body_retryAfter: int)
      (header_retry_after: int) (header_limit: nat) (header_reset: int)
  | Error500

text \<open>
  \<^verbatim>\<open>rateLimitConfig[endpoint]?.maxRequests.toString() || '30'\<close>: the limit of the
  endpoint's own rule; 30 when the lookup gives \<^verbatim>\<open>undefined\<close>; on an inherited
  function \<^verbatim>\<open>maxRequests\<close> is \<^verbatim>\<open>undefined\<close> and \<^verbatim>\<open>toString\<close> throws a
  \<^verbatim>\<open>TypeError\<close>, here \<open>None\<close>.
\<close>

definition limit_header :: "string \<Rightarrow> nat option" where
  "limit_header endpoint =
     (case rateLimitConfig endpoint of
        Some (Rule r) \<Rightarrow> Some (maxRequests r)
      | Some InheritedFunction \<Rightarrow> None
      | None \<Rightarrow> Some 30)"

text \<open>
  The handler reads the clock three times: inside \<^verbatim>\<open>isRateLimited\<close>, for the
  body's \<^verbatim>\<open>retryAfter\<close> and for the \<^verbatim>\<open>Retry-After\<close> header. A limited result
  always carries its \<^verbatim>\<open>resetTime\<close>; the case without one is there for totality
  only. While the 429 response is built, \<^verbatim>\<open>toString\<close> on a missing limit and
  \<^verbatim>\<open>toISOString\<close> on a \<^verbatim>\<open>NaN\<close> reset time throw, and the \<^verbatim>\<open>catch\<close> block
  answers with status 500; the store has been updated by then.
\<close>

definition handler ::
  "Request \<Rightarrow> int \<Rightarrow> int \<Rightarrow> int \<Rightarrow> rateLimitStore \<Rightarrow> RateLimiterResponse \<times> rateLimitStore" where
  "handler req now now2 now3 store =
     (let endpoint = pathname req;
          clientIP = clientIP_of req
      in case isRateLimited clientIP endpoint now store of
           (res, store') \<Rightarrow>
             if limited res
             then (case result_resetTime res of
                     Some (Time reset) \<Rightarrow>
                       (case limit_header endpoint of
                          Some n \<Rightarrow>
                            (TooMany429 (result_message res) (retryAfter reset now2)
                               (retryAfter reset now3) n reset, store')
                        | None \<Rightarrow> (Error500, store'))
                   | Some NaNTime \<Rightarrow> (Error500, store')
                   | None \<Rightarrow> (Allowed200, store'))
             else (Allowed200, store'))"


subsection \<open>Properties of the store, as predicates\<close>

text \<open>
  The limit that the words "maxRequests of the rule configured for the endpoint
  (the default rule when the endpoint is not configured)" give an endpoint.
\<close>

definition limit_for :: "string \<Rightarrow> nat" where
  "limit_for endpoint =
     (case rateLimitConfig endpoint of
        Some (Rule r) \<Rightarrow> maxRequests r
      | _ \<Rightarrow> maxRequests default_rule)"

text \<open>
  A key is \<^verbatim>\<open>clientIP:endpoint\<close>; an entry is within its limit when its count
  lies between 1 and the limit of an endpoint the key was built from.
\<close>

definition entry_within_limit :: "string \<Rightarrow> StoreEntry \<Rightarrow> bool" where
  "entry_within_limit key e =
     (\<exists>clientIP endpoint. key = getRateLimitKey clientIP endpoint \<and>
        1 \<le> count e \<and> count e \<le> limit_for endpoint)"

text \<open>
  The three things a call can do to the store: start a window for its key with
  count 1, add one to its key's count without passing the limit, or nothing.
\<close>

definition call_shape ::
  "string \<Rightarrow> string \<Rightarrow> int \<Rightarrow> rateLimitStore \<Rightarrow> rateLimitStore \<Rightarrow> bool" where
  "call_shape clientIP endpoint now store store' =
     (let key = getRateLimitKey clientIP endpoint in
        (\<exists>t. store' = store(key \<mapsto> \<lparr>count = 1, resetTime = t\<rparr>)) \<or>
        (\<exists>e. store key = Some e \<and> count e + 1 \<le> limit_for endpoint \<and>
              store' = store(key \<mapsto> e\<lparr>count := count e + 1\<rparr>)) \<or>
        store' = store)"

text \<open>
  The client address as the words "first present of the x-forwarded-for or
  x-real-ip header, else the literal unknown" give it: a header counts as soon as
  it is there, whatever its value. It is compared below with \<open>clientIP_of\<close>,
  which is the source's expression.
\<close>

definition clientIP_first_present :: "Request \<Rightarrow> string" where
  "clientIP_first_present req =
     (case x_forwarded_for req of
        Some v \<Rightarrow> v
      | None \<Rightarrow> (case x_real_ip req of Some v \<Rightarrow> v | None \<Rightarrow> ''unknown''))"

text \<open>
  The derived key as the words "first non-empty of the x-forwarded-for or
  x-real-ip header values, else the literal unknown, paired with the URL pathname"
  give it.
\<close>

fun non_empty_value :: "string option \<Rightarrow> string option" where
  "non_empty_value None = None"
| "non_empty_value (Some v) = (if v = [] then None else Some v)"

definition derived_key :: "Request \<Rightarrow> string \<times> string" where
  "derived_key req =
     (case non_empty_value (x_forwarded_for req) of
        Some v \<Rightarrow> (v, pathname req)
      | None \<Rightarrow>
          (case non_empty_value (x_real_ip req) of
             Some v \<Rightarrow> (v, pathname req)
           | None \<Rightarrow> (''unknown'', pathname req)))"

text \<open>Two requests used as examples: an empty first header, different second headers.\<close>

definition request_a :: Request where
  "request_a = \<lparr>x_forwarded_for = Some '''', x_real_ip = Some ''10.0.0.1'',
                 pathname = ''/auth/signup'', peer_address = ''192.0.2.1'',
                 http_method = ''POST'', other_headers = []\<rparr>"

definition request_b :: Request where
  "request_b = \<lparr>x_forwarded_for = Some '''', x_real_ip = Some ''10.0.0.2'',
                 pathname = ''/auth/signup'', peer_address = ''192.0.2.1'',
                 http_method = ''POST'', other_headers = []\<rparr>"

text \<open>A request with neither header.\<close>

definition request_bare :: Request where
  "request_bare = \<lparr>x_forwarded_for = None, x_real_ip = None,
                    pathname = ''/analyze-receipt'', peer_address = ''198.51.100.7'',
                    http_method = ''GET'', other_headers = [(''accept'', ''*/*'')]\<rparr>"

text \<open>A request with both headers, and a sign-up request from one address.\<close>

definition request_both :: Request where
  "request_both = \<lparr>x_forwarded_for = Some ''10.0.0.1'', x_real_ip = Some ''10.0.0.2'',
                    pathname = ''/auth/signin'', peer_address = ''192.0.2.1'',
                    http_method = ''POST'', other_headers = []\<rparr>"


section \<open>Receipt analysis (supabase/functions/analyze-receipt/index.ts)\<close>

subsection \<open>JavaScript numbers\<close>

text \<open>
  A JavaScript number is an IEEE 754 binary64 value: a finite double, \<^verbatim>\<open>NaN\<close> or an
  infinity. A finite double is written \<open>Fin m e\<close> for the dyadic number \<open>m * 2^e\<close>;
  a number has several such writings (\<open>Fin 25 2\<close> and \<open>Fin 100 0\<close> are both 100), so
  finite values are compared through \<open>js_gt\<close> and \<open>js_le\<close>, never by their writing.
  The two zeros are not told apart: no operation used here depends on the sign of
  zero. Every finite double has such a writing; the operations below round the
  exact result of their arguments to a double, as IEEE 754 asks, whatever the
  writing of the arguments.
\<close>

datatype jsnum = Fin int int | NaN | PInf | NInf

text \<open>The real number that \<open>Fin m e\<close> stands for.\<close>

definition valof :: "int \<Rightarrow> int \<Rightarrow> real" where
  "valof m e = real_of_int m * 2 powr real_of_int e"

text \<open>
  Rounding to the nearest double, ties to the even significand. The quotient of
  \<open>m\<close> by \<open>d\<close> is rounded to the nearest integer first.
\<close>

definition round_half_even :: "int \<Rightarrow> int \<Rightarrow> int" where
  "round_half_even m d =
     (let f = m div d; r = m mod d
      in if 2 * r < d then f
         else if 2 * r > d then f + 1
         else if even f then f else f + 1)"

definition infinity_of :: "int \<Rightarrow> jsnum" where
  "infinity_of m = (if m < 0 then NInf else PInf)"

text \<open>
  \<open>round64 m e\<close> is the double nearest to \<open>m * 2^e\<close>. With \<open>E\<close> the exponent of the
  leading bit, the significand keeps 53 bits, so the last kept bit has weight
  \<open>2^(E - 52)\<close>, and never less than \<open>2^(-1074)\<close>, the weight of the last bit of a
  subnormal. A result of magnitude \<open>2^1024\<close> or more is an infinity.
\<close>

definition round64 :: "int \<Rightarrow> int \<Rightarrow> jsnum" where
  "round64 m e =
     (if m = 0 then Fin 0 0
      else
        let E = e + bitlen \<bar>m\<bar> - 1;
            q = max (E - 52) (- 1074)
        in if q \<le> e
           then (if 1024 \<le> E then infinity_of m else Fin m e)
           else
             (let m' = round_half_even m (2 ^ nat (q - e))
              in if 1025 \<le> bitlen \<bar>m'\<bar> + q then infinity_of m else Fin m' q))"

fun js_neg :: "jsnum \<Rightarrow> jsnum" where
  "js_neg (Fin m e) = Fin (- m) e"
| "js_neg NaN = NaN"
| "js_neg PInf = NInf"
| "js_neg NInf = PInf"

text \<open>\<^verbatim>\<open>a + b\<close>: the exact sum of two finite doubles, rounded.\<close>

fun js_add :: "jsnum \<Rightarrow> jsnum \<Rightarrow> jsnum" where
  "js_add (Fin m1 e1) (Fin m2 e2) =
     (let e = min e1 e2
      in round64 (m1 * 2 ^ nat (e1 - e) + m2 * 2 ^ nat (e2 - e)) e)"
| "js_add NaN _ = NaN"
| "js_add _ NaN = NaN"
| "js_add PInf NInf = NaN"
| "js_add NInf PInf = NaN"
| "js_add PInf _ = PInf"
| "js_add _ PInf = PInf"
| "js_add NInf _ = NInf"
| "js_add _ NInf = NInf"

definition js_sub :: "jsnum \<Rightarrow> jsnum \<Rightarrow> jsnum" where
  "js_sub a b = js_add a (js_neg b)"

fun js_abs :: "jsnum \<Rightarrow> jsnum" where
  "js_abs (Fin m e) = Fin \<bar>m\<bar> e"
| "js_abs NaN = NaN"
| "js_abs PInf = PInf"
| "js_abs NInf = PInf"

text \<open>\<^verbatim>\<open>a > b\<close> and \<^verbatim>\<open>a <= b\<close>; both are false as soon as one side is \<^verbatim>\<open>NaN\<close>.\<close>

fun js_gt :: "jsnum \<Rightarrow> jsnum \<Rightarrow> bool" where
  "js_gt (Fin m1 e1) (Fin m2 e2) =
     (let e = min e1 e2 in m1 * 2 ^ nat (e1 - e) > m2 * 2 ^ nat (e2 - e))"
| "js_gt NaN _ = False"
| "js_gt _ NaN = False"
| "js_gt PInf PInf = False"
| "js_gt PInf _ = True"
| "js_gt NInf _ = False"
| "js_gt (Fin m e) NInf = True"
| "js_gt (Fin m e) PInf = False"

fun js_le :: "jsnum \<Rightarrow> jsnum \<Rightarrow> bool" where
  "js_le (Fin m1 e1) (Fin m2 e2) =
     (let e = min e1 e2 in m1 * 2 ^ nat (e1 - e) \<le> m2 * 2 ^ nat (e2 - e))"
| "js_le NaN _ = False"
| "js_le _ NaN = False"
| "js_le NInf _ = True"
| "js_le _ PInf = True"
| "js_le PInf _ = False"
| "js_le (Fin m e) NInf = False"

text \<open>
  The literal \<^verbatim>\<open>0.01\<close>: the double nearest to one hundredth,
  \<open>5764607523034235 * 2^(-59)\<close>, a little above it.
\<close>

definition lit_0_01 :: jsnum where
  "lit_0_01 = Fin 5764607523034235 (- 59)"

subsection \<open>JavaScript strings\<close>

text \<open>
  A string is its sequence of UTF-16 code units; \<^verbatim>\<open>length\<close>, \<^verbatim>\<open>substring\<close> and a
  regular expression without the \<^verbatim>\<open>u\<close> flag all work on code units.
\<close>

type_synonym jsstring = "nat list"

definition ascii :: "string \<Rightarrow> jsstring" where
  "ascii s = map of_char s"

definition is_digit :: "nat \<Rightarrow> bool" where
  "is_digit c = (48 \<le> c \<and> c \<le> 57)"

text \<open>\<^verbatim>\<open>\w\<close>: the ASCII letters, the digits and the underscore.\<close>

definition is_word_char :: "nat \<Rightarrow> bool" where
  "is_word_char c = ((65 \<le> c \<and> c \<le> 90) \<or> (97 \<le> c \<and> c \<le> 122) \<or> is_digit c \<or> c = 95)"

text \<open>
  \<^verbatim>\<open>\s\<close>, which is also what \<^verbatim>\<open>trim\<close> removes: the white space and line
  terminator code units of ECMAScript (tab, line feed, vertical tab, form feed,
  carriage return, space, U+00A0, U+1680, U+2000 to U+200A, U+2028, U+2029, U+202F,
  U+205F, U+3000, U+FEFF).
\<close>

definition is_space :: "nat \<Rightarrow> bool" where
  "is_space c = ((9 \<le> c \<and> c \<le> 13) \<or> c = 32 \<or> c = 160 \<or> c = 5760 \<or>
                 (8192 \<le> c \<and> c \<le> 8202) \<or> c = 8232 \<or> c = 8233 \<or> c = 8239 \<or>
                 c = 8287 \<or> c = 12288 \<or> c = 65279)"

definition js_trim :: "jsstring \<Rightarrow> jsstring" where
  "js_trim s = rev (dropWhile is_space (rev (dropWhile is_space s)))"

text \<open>
  A field of the parsed model output that the code uses as a string. JSON gives no
  guarantee of its type: it is a string, or a falsy value that is not a string
  (\<^verbatim>\<open>undefined\<close> for a missing field, \<^verbatim>\<open>null\<close>, \<^verbatim>\<open>false\<close>, \<^verbatim>\<open>0\<close>), or a
  truthy value that is not a string (another number, \<^verbatim>\<open>true\<close>, an array, an
  object), kept with its conversion to a string.
\<close>

datatype jsvalue = Str jsstring | FalsyOther | TruthyOther jsstring

text \<open>
  \<^verbatim>\<open>!x || x.trim().length === 0\<close>: \<open>None\<close> stands for the \<^verbatim>\<open>TypeError\<close> of
  calling \<^verbatim>\<open>trim\<close> on a truthy value that is not a string.
\<close>

fun is_blank :: "jsvalue \<Rightarrow> bool option" where
  "is_blank (Str s) = Some (s = [] \<or> js_trim s = [])"
| "is_blank FalsyOther = Some True"
| "is_blank (TruthyOther _) = None"

subsection \<open>The model output and its post-processing\<close>

text \<open>
  The object \<^verbatim>\<open>JSON.parse\<close> returns. The three amounts are only ever read through
  \<^verbatim>\<open>Number(...)\<close>, and the record holds that reading: a missing field or a text
  that is no number reads as \<^verbatim>\<open>NaN\<close>, a literal beyond the range of doubles as an
  infinity.
\<close>

record AnalysisResult =
  vendor :: jsvalue
  expense_date :: jsvalue
  amount_gross :: jsnum
  tax_vat :: jsnum
  amount_net :: jsnum
  currency :: jsvalue
  category_suggestion :: jsvalue
  payment_method_guess :: jsvalue
  project_code_guess :: jsvalue
  result_notes :: jsvalue

text \<open>The messages of the handler's responses, by the place that produces them.\<close>

datatype err_message =
    MsgNoApiKey
  | MsgNoFile
  | MsgBadType
  | MsgTooLarge
  | MsgGeminiStatus nat
  | MsgNoContent
  | MsgParse
  | MsgTypeError
  | MsgThrown string

text \<open>
  The financial coherence check: \<^verbatim>\<open>difference > 0.01\<close> recomputes the net amount
  from the gross amount and the VAT.
\<close>

definition difference_of :: "AnalysisResult \<Rightarrow> jsnum" where
  "difference_of a = js_abs (js_sub (js_add (amount_net a) (tax_vat a)) (amount_gross a))"

definition fix_amounts :: "AnalysisResult \<Rightarrow> AnalysisResult" where
  "fix_amounts a =
     (if js_gt (difference_of a) lit_0_01
      then a\<lparr>amount_net := js_sub (amount_gross a) (tax_vat a)\<rparr>
      else a)"

text \<open>\<^verbatim>\<open>'Comercio no identificado'\<close> and \<^verbatim>\<open>'EUR'\<close>\<close>

definition unidentified_vendor :: jsstring where
  "unidentified_vendor = ascii ''Comercio no identificado''"

text \<open>
  \<^verbatim>\<open>vendor.trim().replace(/[^\w\s\-\.]/g, '').substring(0, 100)\<close>: what is kept
  is the word characters, the white space, the hyphen and the dot.
\<close>

definition vendor_kept :: "nat \<Rightarrow> bool" where
  "vendor_kept c = (is_word_char c \<or> is_space c \<or> c = 45 \<or> c = 46)"

definition clean_vendor :: "jsstring \<Rightarrow> jsstring" where
  "clean_vendor s = take 100 (filter vendor_kept (js_trim s))"

definition fix_vendor :: "AnalysisResult \<Rightarrow> err_message + AnalysisResult" where
  "fix_vendor a =
     (case is_blank (vendor a) of
        None \<Rightarrow> Inl MsgTypeError
      | Some True \<Rightarrow> Inr (a\<lparr>vendor := Str (clean_vendor unidentified_vendor)\<rparr>)
      | Some False \<Rightarrow>
          (case vendor a of
             Str s \<Rightarrow> Inr (a\<lparr>vendor := Str (clean_vendor s)\<rparr>)
           | _ \<Rightarrow> Inl MsgTypeError))"

text \<open>\<^verbatim>\<open>/^\d{4}-\d{2}-\d{2}$/\<close>, tested on the field's conversion to a string.\<close>

fun matches_dateRegex :: "jsstring \<Rightarrow> bool" where
  "matches_dateRegex [y1, y2, y3, y4, h1, m1, m2, h2, d1, d2] =
     (is_digit y1 \<and> is_digit y2 \<and> is_digit y3 \<and> is_digit y4 \<and> h1 = 45 \<and>
      is_digit m1 \<and> is_digit m2 \<and> h2 = 45 \<and> is_digit d1 \<and> is_digit d2)"
| "matches_dateRegex _ = False"

fun date_matches :: "jsvalue \<Rightarrow> bool" where
  "date_matches (Str s) = matches_dateRegex s"
| "date_matches FalsyOther = False"
| "date_matches (TruthyOther s) = matches_dateRegex s"

definition fix_date :: "jsstring \<Rightarrow> AnalysisResult \<Rightarrow> AnalysisResult" where
  "fix_date today a =
     (if date_matches (expense_date a) then a else a\<lparr>expense_date := Str today\<rparr>)"

definition fix_currency :: "AnalysisResult \<Rightarrow> err_message + AnalysisResult" where
  "fix_currency a =
     (case is_blank (currency a) of
        None \<Rightarrow> Inl MsgTypeError
      | Some True \<Rightarrow> Inr (a\<lparr>currency := Str (ascii ''EUR'')\<rparr>)
      | Some False \<Rightarrow> Inr a)"

text \<open>The four steps in the source's order; a thrown error ends the run.\<close>

definition postprocess :: "jsstring \<Rightarrow> AnalysisResult \<Rightarrow> err_message + AnalysisResult" where
  "postprocess today a =
     (case fix_vendor (fix_amounts a) of
        Inl e \<Rightarrow> Inl e
      | Inr b \<Rightarrow> fix_currency (fix_date today b))"

subsection \<open>The handler\<close>

record UploadedFile =
  file_name :: string
  file_type :: string
  file_size :: nat

text \<open>
  \<^verbatim>\<open>formData.get('file')\<close>: nothing, a text field, or a file.
\<close>

datatype FormEntry = NoEntry | TextEntry string | FileEntry UploadedFile

text \<open>
  A request: its method and its form data (\<open>Inl\<close> the message of the error that
  \<^verbatim>\<open>req.formData()\<close> throws on a body that is no form).
\<close>

record ReceiptRequest =
  req_method :: string
  req_form :: "string + FormEntry"

text \<open>
  What the single \<^verbatim>\<open>fetch\<close> to the generative model comes to: the call throws,
  answers with a status that is not OK, answers with a body that is not JSON,
  answers without generated text, with text that \<^verbatim>\<open>JSON.parse\<close> rejects, or with
  text that parses. \<^verbatim>\<open>JSON.parse\<close> returns whatever value the text denotes: an
  object (\<open>Parsed\<close>, what the response schema of the request asks for), an array
  (\<open>ParsedArray\<close>, kept as the text \<^verbatim>\<open>JSON.stringify\<close> prints for it), or
  \<^verbatim>\<open>null\<close>, a number, a string or a boolean (\<open>ParsedPrimitive\<close>).
\<close>

datatype Upstream =
    FetchThrows string
  | NotOk nat
  | BodyUnreadable string
  | NoGeneratedText
  | TextNotJson
  | Parsed AnalysisResult
  | ParsedArray jsstring
  | ParsedPrimitive

text \<open>
  Everything outside the request that a run reads: the environment variable, whether
  turning the file into base64 throws (and with which message), the answer of the
  model, and today's date as \<^verbatim>\<open>toISOString\<close> prints it.
\<close>

record World =
  GEMINI_API_KEY :: "string option"
  encoding_throws :: "string option"
  upstream :: Upstream
  today :: jsstring

text \<open>
  The body of a response: none, \<^verbatim>\<open>{error}\<close>, \<^verbatim>\<open>{success: false, error}\<close>, or
  \<^verbatim>\<open>{success: true, data}\<close> with \<open>data\<close> an object (\<open>SuccessBody\<close>) or the text of
  an array (\<open>SuccessArrayBody\<close>).
\<close>

datatype ResponseBody =
    NoBody
  | ErrorBody err_message
  | FailureBody err_message
  | SuccessBody AnalysisResult
  | SuccessArrayBody jsstring

record Response =
  status :: nat
  body :: ResponseBody

definition allowedTypes :: "string list" where
  "allowedTypes = [''image/jpeg'', ''image/jpg'', ''image/png'', ''application/pdf'']"

definition maxSize :: nat where
  "maxSize = 10 * 1024 * 1024"

text \<open>
  The validation of the uploaded file: \<open>Some\<close> the response that rejects it,
  \<open>None\<close> when it passes. A text field has no \<^verbatim>\<open>type\<close>, so a non-empty one fails
  the type test; an empty one is falsy and counts as no file.
\<close>

fun validate_file :: "FormEntry \<Rightarrow> Response option" where
  "validate_file NoEntry = Some \<lparr>status = 400, body = ErrorBody MsgNoFile\<rparr>"
| "validate_file (TextEntry t) =
     (if t = [] then Some \<lparr>status = 400, body = ErrorBody MsgNoFile\<rparr>
      else Some \<lparr>status = 400, body = ErrorBody MsgBadType\<rparr>)"
| "validate_file (FileEntry f) =
     (if file_type f \<notin> set allowedTypes
        then Some \<lparr>status = 400, body = ErrorBody MsgBadType\<rparr>
      else if file_size f > maxSize
        then Some \<lparr>status = 400, body = ErrorBody MsgTooLarge\<rparr>
      else None)"

text \<open>The \<^verbatim>\<open>catch\<close> block: status 500, \<^verbatim>\<open>{success: false, error: message}\<close>.\<close>

definition failure :: "err_message \<Rightarrow> Response" where
  "failure m = \<lparr>status = 500, body = FailureBody m\<rparr>"

text \<open>
  From the \<^verbatim>\<open>fetch\<close> on. The second component counts the calls made to the
  generative model.

  On an array every field the post-processing reads is \<^verbatim>\<open>undefined\<close>: the amounts
  read as \<^verbatim>\<open>NaN\<close> and nothing is recomputed; vendor, date and currency are set as
  properties of the array, which \<^verbatim>\<open>JSON.stringify\<close> does not print. The response
  is a success whose data is the array as it was parsed. On \<^verbatim>\<open>null\<close> the first
  property read throws a \<^verbatim>\<open>TypeError\<close>; on a number, a string or a boolean the
  reads give \<^verbatim>\<open>undefined\<close> and the assignment of the vendor throws a
  \<^verbatim>\<open>TypeError\<close> (the file is a module, so strict mode).
\<close>

definition call_model :: "World \<Rightarrow> Response \<times> nat" where
  "call_model w =
     (case upstream w of
        FetchThrows m \<Rightarrow> (failure (MsgThrown m), 1)
      | NotOk st \<Rightarrow> (failure (MsgGeminiStatus st), 1)
      | BodyUnreadable m \<Rightarrow> (failure (MsgThrown m), 1)
      | NoGeneratedText \<Rightarrow> (failure MsgNoContent, 1)
      | TextNotJson \<Rightarrow> (failure MsgParse, 1)
      | Parsed a \<Rightarrow>
          (case postprocess (today w) a of
             Inl e \<Rightarrow> (failure e, 1)
           | Inr d \<Rightarrow> (\<lparr>status = 200, body = SuccessBody d\<rparr>, 1))
      | ParsedArray t \<Rightarrow> (\<lparr>status = 200, body = SuccessArrayBody t\<rparr>, 1)
      | ParsedPrimitive \<Rightarrow> (failure MsgTypeError, 1))"

definition analyze_receipt :: "World \<Rightarrow> ReceiptRequest \<Rightarrow> Response \<times> nat" where
  "analyze_receipt w req =
     (if req_method req = ''OPTIONS'' then (\<lparr>status = 200, body = NoBody\<rparr>, 0)
      else case GEMINI_API_KEY w of
        None \<Rightarrow> (\<lparr>status = 500, body = ErrorBody MsgNoApiKey\<rparr>, 0)
      | Some k \<Rightarrow>
          if k = [] then (\<lparr>status = 500, body = ErrorBody MsgNoApiKey\<rparr>, 0)
          else case req_form req of
            Inl m \<Rightarrow> (failure (MsgThrown m), 0)
          | Inr entry \<Rightarrow>
              (case validate_file entry of
                 Some rejection \<Rightarrow> (rejection, 0)
               | None \<Rightarrow>
                   (case encoding_throws w of
                      Some m \<Rightarrow> (failure (MsgThrown m), 0)
                    | None \<Rightarrow> call_model w)))"

subsection \<open>Statements about the result, as predicates\<close>

text \<open>
  \<open>|net + VAT - gross|\<close> is at most 0.01, the difference computed in doubles as
  the function computes it.
\<close>

definition coherent :: "AnalysisResult \<Rightarrow> bool" where
  "coherent a = js_le (difference_of a) lit_0_01"

text \<open>An amount of magnitude at most \<open>3 * 10^13\<close> (which makes it finite).\<close>

definition amount_limit :: jsnum where
  "amount_limit = Fin 30000000000000 0"

definition moderate :: "jsnum \<Rightarrow> bool" where
  "moderate x = js_le (js_abs x) amount_limit"

text \<open>
  The same difference without any rounding, as the words \<open>|net + VAT - gross|\<close>
  read over the real numbers: the sum of two finite doubles is a dyadic number and
  is kept as it is.
\<close>

fun exact_add :: "jsnum \<Rightarrow> jsnum \<Rightarrow> jsnum" where
  "exact_add (Fin m1 e1) (Fin m2 e2) =
     (let e = min e1 e2 in Fin (m1 * 2 ^ nat (e1 - e) + m2 * 2 ^ nat (e2 - e)) e)"
| "exact_add (Fin m e) NaN = NaN"
| "exact_add (Fin m e) PInf = PInf"
| "exact_add (Fin m e) NInf = NInf"
| "exact_add NaN b = NaN"
| "exact_add PInf b = js_add PInf b"
| "exact_add NInf b = js_add NInf b"

definition exact_difference :: "AnalysisResult \<Rightarrow> jsnum" where
  "exact_difference a =
     js_abs (exact_add (exact_add (amount_net a) (tax_vat a)) (js_neg (amount_gross a)))"

text \<open>
  The vendor as the words "all non-alphanumeric characters stripped and truncated
  to at most 100 characters" give it, to be compared with what the function returns.
\<close>

definition is_alphanumeric :: "nat \<Rightarrow> bool" where
  "is_alphanumeric c = ((65 \<le> c \<and> c \<le> 90) \<or> (97 \<le> c \<and> c \<le> 122) \<or> is_digit c)"

definition vendor_as_stated :: "jsstring \<Rightarrow> jsstring" where
  "vendor_as_stated s = take 100 (filter is_alphanumeric s)"

text \<open>
  The vendor as these words give it: the model's vendor, or
  \<^verbatim>\<open>Comercio no identificado\<close> when that is missing or blank; white space removed
  at both ends; every code unit removed that is not an ASCII letter, a digit, an
  underscore, white space, a hyphen or a dot; the first 100 code units of that.
  Written from the words, with the characters listed one by one, to be compared with
  what the function returns.
\<close>

definition white_space_units :: "nat list" where
  "white_space_units =
     [9, 10, 11, 12, 13, 32, 160, 5760, 8192, 8193, 8194, 8195, 8196, 8197, 8198, 8199,
      8200, 8201, 8202, 8232, 8233, 8239, 8287, 12288, 65279]"

definition letter_units :: "nat list" where
  "letter_units = [65 ..< 91] @ [97 ..< 123]"

definition digit_units :: "nat list" where
  "digit_units = [48 ..< 58]"

definition allowed_in_vendor :: "nat \<Rightarrow> bool" where
  "allowed_in_vendor c =
     (c \<in> set letter_units \<or> c \<in> set digit_units \<or> c = 95 \<or> c \<in> set white_space_units \<or>
      c = 45 \<or> c = 46)"

fun strip_left :: "jsstring \<Rightarrow> jsstring" where
  "strip_left [] = []"
| "strip_left (c # s) = (if c \<in> set white_space_units then strip_left s else c # s)"

definition strip_both :: "jsstring \<Rightarrow> jsstring" where
  "strip_both s = rev (strip_left (rev (strip_left s)))"

fun remove_disallowed :: "jsstring \<Rightarrow> jsstring" where
  "remove_disallowed [] = []"
| "remove_disallowed (c # s) =
     (if allowed_in_vendor c then c # remove_disallowed s else remove_disallowed s)"

fun model_vendor_or_placeholder :: "jsvalue \<Rightarrow> jsstring" where
  "model_vendor_or_placeholder (Str s) =
     (if strip_both s = [] then ascii ''Comercio no identificado'' else s)"
| "model_vendor_or_placeholder FalsyOther = ascii ''Comercio no identificado''"
| "model_vendor_or_placeholder (TruthyOther t) = t"

definition vendor_as_amended :: "jsvalue \<Rightarrow> jsstring" where
  "vendor_as_amended v = take 100 (remove_disallowed (strip_both (model_vendor_or_placeholder v)))"

text \<open>Example inputs: a configured environment, a small JPEG, a plain-text file.\<close>

definition receipt_jpeg :: UploadedFile where
  "receipt_jpeg = \<lparr>file_name = ''ticket.jpg'', file_type = ''image/jpeg'', file_size = 2048\<rparr>"

definition notes_txt :: UploadedFile where
  "notes_txt = \<lparr>file_name = ''notes.txt'', file_type = ''text/plain'', file_size = 12\<rparr>"

definition post_of :: "UploadedFile \<Rightarrow> ReceiptRequest" where
  "post_of f = \<lparr>req_method = ''POST'', req_form = Inr (FileEntry f)\<rparr>"

definition sample_output :: AnalysisResult where
  "sample_output =
     \<lparr>vendor = Str (ascii ''A B''), expense_date = Str (ascii ''2024-03-15''),
      amount_gross = Fin 100 0, tax_vat = Fin 0 0, amount_net = Fin 100 0,
      currency = Str (ascii ''EUR''), category_suggestion = Str (ascii ''Otros''),
      payment_method_guess = Str (ascii ''CARD''), project_code_guess = FalsyOther,
      result_notes = FalsyOther\<rparr>"

definition world_of :: "Upstream \<Rightarrow> World" where
  "world_of u = \<lparr>GEMINI_API_KEY = Some ''key'', encoding_throws = None, upstream = u,
                 today = ascii ''2024-03-20''\<rparr>"

text \<open>
  More model outputs, differing from the sample in their amounts.

  \<^item> \<open>cents_output\<close>: net 7.74, VAT 11.00, gross 18.73, each the nearest double. In
    doubles \<open>7.74 + 11\<close> is \<open>18.740000000000002\<close> and the difference
    \<open>0.010000000000001563\<close>.
  \<^item> \<open>unreadable_vat_output\<close>: a VAT field that \<^verbatim>\<open>Number\<close> reads as \<^verbatim>\<open>NaN\<close>.
  \<^item> \<open>huge_vat_output\<close>: net 0, VAT \<open>10^16\<close>, gross 1.
  \<^item> \<open>tie_output\<close>: net 0, VAT \<open>- 2^46\<close>, gross \<open>2^46 + 2^(-6)\<close>, which is
    \<open>70368744177664.015625\<close>.
  \<^item> \<open>absorbed_vat_output\<close>: net and gross \<open>2^43\<close>, VAT \<open>21 / 2048\<close>, which is
    \<open>0.01025390625\<close>.
\<close>

definition amounts :: "jsnum \<Rightarrow> jsnum \<Rightarrow> jsnum \<Rightarrow> AnalysisResult" where
  "amounts n v g = sample_output\<lparr>amount_gross := g, tax_vat := v, amount_net := n\<rparr>"

definition cents_output :: AnalysisResult where
  "cents_output =
     amounts (Fin 4357232639480955 (- 49)) (Fin 11 0) (Fin 5272026313790587 (- 48))"

definition unreadable_vat_output :: AnalysisResult where
  "unreadable_vat_output = amounts (Fin 100 0) NaN (Fin 100 0)"

definition huge_vat_output :: AnalysisResult where
  "huge_vat_output = amounts (Fin 0 0) (Fin 152587890625 16) (Fin 1 0)"

definition tie_output :: AnalysisResult where
  "tie_output = amounts (Fin 0 0) (Fin (- 1) 46) (Fin 4503599627370497 (- 6))"

definition absorbed_vat_output :: AnalysisResult where
  "absorbed_vat_output = amounts (Fin 1 43) (Fin 21 (- 11)) (Fin 1 43)"

definition messy_vendor_output :: AnalysisResult where
  "messy_vendor_output = sample_output\<lparr>vendor := Str (ascii ''  Bar-Luna, S.A. #12 '')\<rparr>"

section \<open>The sign-up form (Auth page, \<^verbatim>\<open>handleSignUp\<close>) and the client-side limiter\<close>

subsection \<open>\<^verbatim>\<open>ClientRateLimiter\<close> (src/lib/rate-limiter.ts)\<close>

text \<open>
  The browser keeps its own counters, keyed by the endpoint name alone (no
  \<^verbatim>\<open>keyGenerator\<close> is configured). The static \<^verbatim>\<open>storage\<close> map is passed
  explicitly, the readings of \<^verbatim>\<open>Date.now()\<close> are arguments.
\<close>

record ClientLimitConfig =
  client_maxRequests :: nat
  client_windowMs :: int

definition configs_auth :: ClientLimitConfig where
  "configs_auth = \<lparr>client_maxRequests = 3, client_windowMs = 300000\<rparr>"

record RateLimitEntry =
  entry_count :: nat
  entry_resetTime :: int

type_synonym clientStorage = "string \<rightharpoonup> RateLimitEntry"

definition isAllowed ::
  "string \<Rightarrow> ClientLimitConfig \<Rightarrow> int \<Rightarrow> clientStorage \<Rightarrow> bool \<times> clientStorage" where
  "isAllowed endpoint finalConfig now storage =
     (let fresh = \<lparr>entry_count = 1, entry_resetTime = now + client_windowMs finalConfig\<rparr>
      in case storage endpoint of
           None \<Rightarrow> (True, storage(endpoint \<mapsto> fresh))
         | Some entry \<Rightarrow>
             if now > entry_resetTime entry then (True, storage(endpoint \<mapsto> fresh))
             else if entry_count entry < client_maxRequests finalConfig
               then (True, storage(endpoint \<mapsto> entry\<lparr>entry_count := entry_count entry + 1\<rparr>))
             else (False, storage))"

definition getRemainingTime :: "string \<Rightarrow> int \<Rightarrow> clientStorage \<Rightarrow> int" where
  "getRemainingTime endpoint now storage =
     (case storage endpoint of
        None \<Rightarrow> 0
      | Some entry \<Rightarrow> max 0 (entry_resetTime entry - now))"

subsection \<open>\<^verbatim>\<open>handleSignUp\<close>\<close>

record SignUpForm =
  email :: jsstring
  password :: jsstring
  name :: jsstring
  confirmPassword :: jsstring

text \<open>
  The texts \<^verbatim>\<open>setError\<close> is given, by the branch that sets them; the last three
  come from the answer of the authentication service.
\<close>

datatype form_error =
    ErrPasswordsDiffer
  | ErrPasswordTooShort
  | ErrTooManyAttempts int
  | ErrAlreadyRegistered
  | ErrService jsstring
  | ErrUnexpected

text \<open>
  The one network call of the handler, \<^verbatim>\<open>supabase.auth.signUp\<close>, with the e-mail
  address, the password and the name it sends.
\<close>

datatype network_call = SignUp jsstring jsstring jsstring

text \<open>
  What the call comes to: an error with its message (\<open>True\<close> when the message
  contains \<^verbatim>\<open>User already registered\<close>), a user without a session, a session,
  neither, or an exception.
\<close>

datatype signup_reply =
    ReplyError bool jsstring
  | ReplyUserOnly
  | ReplySession
  | ReplyEmpty
  | ReplyThrows

record SignUpOutcome =
  shown_error :: "form_error option"
  network_calls :: "network_call list"
  storage_after :: clientStorage
  navigated :: bool

text \<open>
  The handler. \<open>sanitizeInput\<close> is \<^verbatim>\<open>SecurityUtils.sanitizeInput\<close>, applied to the
  e-mail address and the name on their way into the call; it is a parameter here.
  The minutes of the rate-limit text are \<^verbatim>\<open>Math.ceil(remaining / 1000 / 60)\<close>.
\<close>

definition handleSignUp ::
  "(jsstring \<Rightarrow> jsstring) \<Rightarrow> SignUpForm \<Rightarrow> int \<Rightarrow> int \<Rightarrow> clientStorage \<Rightarrow> signup_reply
     \<Rightarrow> SignUpOutcome" where
  "handleSignUp sanitizeInput formData now now2 storage reply =
     (if password formData \<noteq> confirmPassword formData
        then \<lparr>shown_error = Some ErrPasswordsDiffer, network_calls = [],
              storage_after = storage, navigated = False\<rparr>
      else if length (password formData) < 6
        then \<lparr>shown_error = Some ErrPasswordTooShort, network_calls = [],
              storage_after = storage, navigated = False\<rparr>
      else case isAllowed ''/auth/signup'' configs_auth now storage of
        (allowed, storage') \<Rightarrow>
          if \<not> allowed
          then \<lparr>shown_error = Some (ErrTooManyAttempts
                     (- ((- getRemainingTime ''/auth/signup'' now2 storage') div 60000))),
                network_calls = [], storage_after = storage', navigated = False\<rparr>
          else
            (let call = SignUp (sanitizeInput (email formData)) (password formData)
                          (sanitizeInput (name formData))
             in case reply of
                  ReplyError registered m \<Rightarrow>
                    \<lparr>shown_error = Some (if registered then ErrAlreadyRegistered else ErrService m),
                     network_calls = [call], storage_after = storage', navigated = False\<rparr>
                | ReplyUserOnly \<Rightarrow>
                    \<lparr>shown_error = None, network_calls = [call], storage_after = storage',
                     navigated = False\<rparr>
                | ReplySession \<Rightarrow>
                    \<lparr>shown_error = None, network_calls = [call], storage_after = storage',
                     navigated = True\<rparr>
                | ReplyEmpty \<Rightarrow>
                    \<lparr>shown_error = None, network_calls = [call], storage_after = storage',
                     navigated = False\<rparr>
                | ReplyThrows \<Rightarrow>
                    \<lparr>shown_error = Some ErrUnexpected, network_calls = [call],
                     storage_after = storage', navigated = False\<rparr>))"

text \<open>
  The number of characters of a string as Unicode counts them, in code points: a
  high surrogate followed by a low surrogate is one character of two code units.
  This is the count that the words "fewer than 6 characters" speak of; the source
  tests \<^verbatim>\<open>password.length\<close>, the number of code units.
\<close>

definition is_high_surrogate :: "nat \<Rightarrow> bool" where
  "is_high_surrogate c = (55296 \<le> c \<and> c \<le> 56319)"

definition is_low_surrogate :: "nat \<Rightarrow> bool" where
  "is_low_surrogate c = (56320 \<le> c \<and> c \<le> 57343)"

fun code_points :: "jsstring \<Rightarrow> nat" where
  "code_points [] = 0"
| "code_points [c] = 1"
| "code_points (c # d # s) =
     (if is_high_surrogate c \<and> is_low_surrogate d then Suc (code_points s)
      else Suc (code_points (d # s)))"

text \<open>
  \<^verbatim>\<open>SecurityUtils.sanitizeInput\<close> removes angle brackets, \<^verbatim>\<open>javascript:\<close> and
  \<^verbatim>\<open>on...=\<close>, and trims. The e-mail address and the name of the examples below
  hold none of these, so on them it is the identity.
\<close>

definition sanitize_plain :: "jsstring \<Rightarrow> jsstring" where
  "sanitize_plain s = s"

text \<open>
  Three forms used as examples: a five-character password, an eight-character one,
  and one of three characters outside the basic plane (three times U+1F600), which
  are six code units.
\<close>

definition three_faces :: jsstring where
  "three_faces = [55357, 56832, 55357, 56832, 55357, 56832]"

definition faces_form :: SignUpForm where
  "faces_form = \<lparr>email = ascii ''ana@example.org'', password = three_faces,
                  name = ascii ''Ana'', confirmPassword = three_faces\<rparr>"

definition short_form :: SignUpForm where
  "short_form = \<lparr>email = ascii ''ana@example.org'', password = ascii ''abc12'',
                  name = ascii ''Ana'', confirmPassword = ascii ''abc12''\<rparr>"

definition long_form :: SignUpForm where
  "long_form = \<lparr>email = ascii ''ana@example.org'', password = ascii ''abc12345'',
                 name = ascii ''Ana'', confirmPassword = ascii ''abc12345''\<rparr>"

section \<open>Expense status: row policies and the review actions\<close>

text \<open>
  The tables are \<^verbatim>\<open>public.profiles\<close> and \<^verbatim>\<open>public.expenses\<close> of the first
  migration; the policies are those in force after the later migration that
  rewrites the admin policies with \<^verbatim>\<open>get_current_user_role()\<close>. The review actions
  are \<^verbatim>\<open>approveExpense\<close> and \<^verbatim>\<open>rejectExpense\<close> of the expenses page
  (src/pages/UploadExpense.tsx).
\<close>

datatype app_role = ADMIN | EMPLOYEE

datatype expense_status = PENDING | APPROVED | REJECTED

datatype expense_source = MANUAL | AI_EXTRACTED

text \<open>
  An expense row: the columns that policies and review actions read or write, and
  one field for all the others.
\<close>

record ExpenseRow =
  row_id :: string
  row_employee_id :: string
  row_status :: expense_status
  row_approver_id :: "string option"
  row_approved_at :: "int option"
  row_rejection_reason :: "jsstring option"
  row_source :: expense_source
  row_other_columns :: string

record Database =
  profiles :: "string \<rightharpoonup> app_role"
  expenses :: "string \<rightharpoonup> ExpenseRow"

text \<open>
  \<^verbatim>\<open>auth.uid()\<close> is the user of the request, \<open>None\<close> for an anonymous one;
  \<^verbatim>\<open>get_current_user_role()\<close> selects that user's role from the profiles.
\<close>

definition get_current_user_role :: "Database \<Rightarrow> string option \<Rightarrow> app_role option" where
  "get_current_user_role db uid = (case uid of None \<Rightarrow> None | Some u \<Rightarrow> profiles db u)"

text \<open>
  The two \<^verbatim>\<open>FOR UPDATE\<close> policies on expenses:
  \<^verbatim>\<open>USING (employee_id = auth.uid() AND status = 'PENDING')\<close> and
  \<^verbatim>\<open>USING (public.get_current_user_role() = 'ADMIN')\<close>.
\<close>

definition users_update_own_pending :: "string option \<Rightarrow> ExpenseRow \<Rightarrow> bool" where
  "users_update_own_pending uid r = (uid = Some (row_employee_id r) \<and> row_status r = PENDING)"

definition admins_update_all :: "Database \<Rightarrow> string option \<Rightarrow> bool" where
  "admins_update_all db uid = (get_current_user_role db uid = Some ADMIN)"

text \<open>
  How PostgreSQL applies them: the policies are permissive, so one of them has to
  accept; a policy written with \<^verbatim>\<open>USING\<close> alone uses the same expression as its
  \<^verbatim>\<open>WITH CHECK\<close>. The existing row is tested with \<^verbatim>\<open>USING\<close> (a row that fails
  is not updated, without an error), the new row with \<^verbatim>\<open>WITH CHECK\<close> (a row that
  fails makes the statement fail).
\<close>

definition policy_accepts :: "Database \<Rightarrow> string option \<Rightarrow> ExpenseRow \<Rightarrow> bool" where
  "policy_accepts db uid r = (users_update_own_pending uid r \<or> admins_update_all db uid)"

datatype update_outcome = RowUpdated | NoRowUpdated | PolicyError

text \<open>
  \<^verbatim>\<open>UPDATE expenses SET ... WHERE id = ...\<close> by the user \<open>uid\<close>; the assignment
  is the function \<open>change\<close> on the row.
\<close>

definition update_expense ::
  "Database \<Rightarrow> string option \<Rightarrow> string \<Rightarrow> (ExpenseRow \<Rightarrow> ExpenseRow) \<Rightarrow> update_outcome \<times> Database" where
  "update_expense db uid expenseId change =
     (case expenses db expenseId of
        None \<Rightarrow> (NoRowUpdated, db)
      | Some old \<Rightarrow>
          if \<not> policy_accepts db uid old then (NoRowUpdated, db)
          else if \<not> policy_accepts db uid (change old) then (PolicyError, db)
          else (RowUpdated, db\<lparr>expenses := (expenses db)(expenseId \<mapsto> change old)\<rparr>))"

subsection \<open>The review actions of the expenses page\<close>

record Profile =
  profile_id :: string
  profile_role :: app_role

text \<open>
  \<^verbatim>\<open>approveExpense(expenseId)\<close>: an update of the row with that id, with no
  condition on its status. The request is made as the signed-in user;
  \<^verbatim>\<open>profile?.id\<close> is left out of the update when no profile is loaded.
\<close>

definition approver_of :: "Profile option \<Rightarrow> ExpenseRow \<Rightarrow> string option" where
  "approver_of profile r = (case profile of None \<Rightarrow> row_approver_id r | Some p \<Rightarrow> Some (profile_id p))"

definition approveExpense ::
  "Database \<Rightarrow> string option \<Rightarrow> Profile option \<Rightarrow> int \<Rightarrow> string \<Rightarrow> update_outcome \<times> Database" where
  "approveExpense db uid profile now expenseId =
     update_expense db uid expenseId
       (\<lambda>r. r\<lparr>row_status := APPROVED, row_approver_id := approver_of profile r,
               row_approved_at := Some now\<rparr>)"

text \<open>
  \<^verbatim>\<open>rejectExpense()\<close> acts on \<^verbatim>\<open>selectedExpense\<close> and needs a reason that is not
  blank; otherwise it only shows a message.
\<close>

definition rejectExpense ::
  "Database \<Rightarrow> string option \<Rightarrow> Profile option \<Rightarrow> int \<Rightarrow> ExpenseRow option \<Rightarrow> jsstring
     \<Rightarrow> update_outcome \<times> Database" where
  "rejectExpense db uid profile now selectedExpense rejectionReason =
     (case selectedExpense of
        None \<Rightarrow> (NoRowUpdated, db)
      | Some shown \<Rightarrow>
          if js_trim rejectionReason = [] then (NoRowUpdated, db)
          else update_expense db uid (row_id shown)
                 (\<lambda>r. r\<lparr>row_status := REJECTED, row_approver_id := approver_of profile r,
                         row_approved_at := Some now,
                         row_rejection_reason := Some rejectionReason\<rparr>))"

text \<open>
  The page shows the approve and reject buttons of a listed expense when
  \<^verbatim>\<open>profile?.role === 'ADMIN' && expense.status === 'PENDING'\<close>; \<open>shown\<close> is the
  copy of the row in the list the page has loaded, \<open>profile\<close> the profile the page
  has loaded for its user.
\<close>

definition review_offered :: "Profile option \<Rightarrow> ExpenseRow \<Rightarrow> bool" where
  "review_offered profile shown =
     (case profile of None \<Rightarrow> False
      | Some p \<Rightarrow> profile_role p = ADMIN \<and> row_status shown = PENDING)"

text \<open>
  A click on the approve button of a listed expense, and a click on its reject
  button followed by the confirmation of the dialog with the reason typed there.
  \<open>None\<close>: the buttons are not on the page, and nothing is run.
\<close>

definition click_approve ::
  "Database \<Rightarrow> string option \<Rightarrow> Profile option \<Rightarrow> int \<Rightarrow> ExpenseRow
     \<Rightarrow> (update_outcome \<times> Database) option" where
  "click_approve db uid profile now shown =
     (if review_offered profile shown
      then Some (approveExpense db uid profile now (row_id shown))
      else None)"

definition click_reject ::
  "Database \<Rightarrow> string option \<Rightarrow> Profile option \<Rightarrow> int \<Rightarrow> ExpenseRow \<Rightarrow> jsstring
     \<Rightarrow> (update_outcome \<times> Database) option" where
  "click_reject db uid profile now shown rejectionReason =
     (if review_offered profile shown
      then Some (rejectExpense db uid profile now (Some shown) rejectionReason)
      else None)"

subsection \<open>Status changes, as predicates\<close>

text \<open>The status of a row in a database, and the two transitions of the lifecycle.\<close>

definition status_in :: "Database \<Rightarrow> string \<Rightarrow> expense_status option" where
  "status_in db expenseId = map_option row_status (expenses db expenseId)"

definition review_transition :: "expense_status \<Rightarrow> expense_status \<Rightarrow> bool" where
  "review_transition old new = (old = PENDING \<and> (new = APPROVED \<or> new = REJECTED))"

text \<open>
  An example database: an administrator, an employee, and three expenses of the
  employee, one in each status.
\<close>

definition example_row :: "string \<Rightarrow> expense_status \<Rightarrow> ExpenseRow" where
  "example_row i s =
     \<lparr>row_id = i, row_employee_id = ''emp-1'', row_status = s, row_approver_id = None,
      row_approved_at = None, row_rejection_reason = None, row_source = MANUAL,
      row_other_columns = ''''\<rparr>"

definition example_db :: Database where
  "example_db =
     \<lparr>profiles = [''adm-1'' \<mapsto> ADMIN, ''emp-1'' \<mapsto> EMPLOYEE],
      expenses = [''exp-p'' \<mapsto> example_row ''exp-p'' PENDING,
                  ''exp-a'' \<mapsto> example_row ''exp-a'' APPROVED,
                  ''exp-r'' \<mapsto> example_row ''exp-r'' REJECTED]\<rparr>"

definition admin_profile :: Profile where
  "admin_profile = \<lparr>profile_id = ''adm-1'', profile_role = ADMIN\<rparr>"

definition employee_profile :: Profile where
  "employee_profile = \<lparr>profile_id = ''emp-1'', profile_role = EMPLOYEE\<rparr>"

text \<open>An update that sets a row back to pending, as any client of the database can send it.\<close>

definition back_to_pending :: "ExpenseRow \<Rightarrow> ExpenseRow" where
  "back_to_pending r = r\<lparr>row_status := PENDING\<rparr>"

section \<open>The upload page (\<^verbatim>\<open>ExpenseUpload\<close>: select, analyse, edit, save)\<close>

text \<open>
  The component's state that matters for what is saved: the selected file, the
  \<^verbatim>\<open>extractedData\<close> of the last successful analysis, the form, and the loaded
  categories and project codes. Each handler is a function from state to state.
\<close>

subsection \<open>Form data\<close>

text \<open>
  The text of an amount field is only ever tested for being empty and read by
  \<^verbatim>\<open>parseFloat\<close>, so it is held as that: the empty text, or a text with its
  reading (\<^verbatim>\<open>NaN\<close> when it does not start with a number). The text that
  \<^verbatim>\<open>toString\<close> gives for a number reads back as that number.
\<close>

datatype amount_text = EmptyText | TextOf jsnum

fun parseFloat :: "amount_text \<Rightarrow> jsnum" where
  "parseFloat EmptyText = NaN"
| "parseFloat (TextOf n) = n"

text \<open>\<^verbatim>\<open>x?.toString() || ''\<close> on an amount that may be \<^verbatim>\<open>null\<close>.\<close>

fun number_text :: "jsnum option \<Rightarrow> amount_text" where
  "number_text None = EmptyText"
| "number_text (Some n) = TextOf n"

text \<open>\<^verbatim>\<open>x || 0\<close> on a number: \<^verbatim>\<open>NaN\<close> and zero are falsy.\<close>

fun or_zero :: "jsnum \<Rightarrow> jsnum" where
  "or_zero NaN = Fin 0 0"
| "or_zero (Fin m e) = (if m = 0 then Fin 0 0 else Fin m e)"
| "or_zero PInf = PInf"
| "or_zero NInf = NInf"

record ExpenseForm =
  form_vendor :: jsstring
  form_expense_date :: jsstring
  form_amount_net :: amount_text
  form_tax_vat :: amount_text
  form_amount_gross :: amount_text
  form_currency :: jsstring
  form_category_id :: jsstring
  form_project_code_id :: jsstring
  form_payment_method :: jsstring
  form_notes :: jsstring

definition empty_form :: ExpenseForm where
  "empty_form =
     \<lparr>form_vendor = [], form_expense_date = [], form_amount_net = EmptyText,
      form_tax_vat = EmptyText, form_amount_gross = EmptyText, form_currency = ascii ''EUR'',
      form_category_id = [], form_project_code_id = [], form_payment_method = [],
      form_notes = []\<rparr>"

text \<open>
  \<^verbatim>\<open>result.data\<close> of a successful analysis, with the types of the interface
  \<^verbatim>\<open>ExtractedData\<close>; an amount can be \<^verbatim>\<open>null\<close> (what JSON makes of \<^verbatim>\<open>NaN\<close>),
  the optional fields can be missing.
\<close>

record ExtractedData =
  ex_vendor :: jsstring
  ex_expense_date :: jsstring
  ex_amount_gross :: "jsnum option"
  ex_tax_vat :: "jsnum option"
  ex_amount_net :: "jsnum option"
  ex_currency :: jsstring
  ex_category_suggestion :: "jsstring option"
  ex_payment_method_guess :: jsstring
  ex_project_code_guess :: "jsstring option"
  ex_notes :: "jsstring option"

record Category =
  category_id :: jsstring
  category_name :: jsstring

record ProjectCode =
  project_id :: jsstring
  project_code :: jsstring

record UploadState =
  st_file :: "UploadedFile option"
  st_extractedData :: "ExtractedData option"
  st_formData :: ExpenseForm
  st_categories :: "Category list"
  st_projectCodes :: "ProjectCode list"


subsection \<open>The handlers\<close>

text \<open>\<^verbatim>\<open>handleFileSelect\<close>: a file of another type or above 10MB is not taken.\<close>

definition handleFileSelect :: "UploadState \<Rightarrow> UploadedFile \<Rightarrow> UploadState" where
  "handleFileSelect st f =
     (if file_type f \<notin> set allowedTypes then st
      else if file_size f > 10 * 1024 * 1024 then st
      else st\<lparr>st_file := Some f\<rparr>)"

text \<open>The button that removes the file: it also forgets the extracted data, not the form.\<close>

definition remove_file :: "UploadState \<Rightarrow> UploadState" where
  "remove_file st = st\<lparr>st_file := None, st_extractedData := None\<rparr>"

text \<open>The button that clears the form.\<close>

definition clear_form :: "UploadState \<Rightarrow> UploadState" where
  "clear_form st = st\<lparr>st_formData := empty_form, st_extractedData := None\<rparr>"

text \<open>
  The pre-filling of the form in \<^verbatim>\<open>analyzeReceipt\<close>. \<open>toLowerCase\<close> is the
  string method of that name, a parameter here; \<^verbatim>\<open>find\<close> is the first match.
\<close>

definition matching_category ::
  "(jsstring \<Rightarrow> jsstring) \<Rightarrow> Category list \<Rightarrow> jsstring option \<Rightarrow> Category option" where
  "matching_category toLowerCase cats suggestion =
     (case suggestion of
        None \<Rightarrow> None
      | Some s \<Rightarrow> find (\<lambda>cat. toLowerCase (category_name cat) = toLowerCase s) cats)"

definition matching_project ::
  "(jsstring \<Rightarrow> jsstring) \<Rightarrow> ProjectCode list \<Rightarrow> jsstring option \<Rightarrow> ProjectCode option" where
  "matching_project toLowerCase projs guess =
     (case guess of
        None \<Rightarrow> None
      | Some g \<Rightarrow> if g = [] then None
                  else find (\<lambda>proj. toLowerCase (project_code proj) = toLowerCase g) projs)"

definition prefill ::
  "(jsstring \<Rightarrow> jsstring) \<Rightarrow> UploadState \<Rightarrow> ExtractedData \<Rightarrow> ExpenseForm" where
  "prefill toLowerCase st d =
     (let prev = st_formData st;
          filled = prev\<lparr>form_vendor := ex_vendor d,
                        form_expense_date := ex_expense_date d,
                        form_amount_net := number_text (ex_amount_net d),
                        form_tax_vat := number_text (ex_tax_vat d),
                        form_amount_gross := number_text (ex_amount_gross d),
                        form_currency := (if ex_currency d = [] then ascii ''EUR'' else ex_currency d),
                        form_payment_method := ex_payment_method_guess d,
                        form_notes := (case ex_notes d of None \<Rightarrow> [] | Some n \<Rightarrow> n)\<rparr>;
          with_category =
            (case matching_category toLowerCase (st_categories st) (ex_category_suggestion d) of
               None \<Rightarrow> filled
             | Some cat \<Rightarrow> filled\<lparr>form_category_id := category_id cat\<rparr>)
      in case matching_project toLowerCase (st_projectCodes st) (ex_project_code_guess d) of
           None \<Rightarrow> with_category
         | Some proj \<Rightarrow> with_category\<lparr>form_project_code_id := project_id proj\<rparr>)"

text \<open>
  \<^verbatim>\<open>analyzeReceipt\<close>: nothing without a file; \<open>reply\<close> is \<open>Some\<close> the data of
  an answer with \<^verbatim>\<open>success\<close> and \<^verbatim>\<open>data\<close>, \<open>None\<close> for any failure, which only
  shows a message.
\<close>

definition analyzeReceipt ::
  "(jsstring \<Rightarrow> jsstring) \<Rightarrow> UploadState \<Rightarrow> ExtractedData option \<Rightarrow> UploadState" where
  "analyzeReceipt toLowerCase st reply =
     (case st_file st of
        None \<Rightarrow> st
      | Some f \<Rightarrow>
          (case reply of
             None \<Rightarrow> st
           | Some d \<Rightarrow> st\<lparr>st_extractedData := Some d, st_formData := prefill toLowerCase st d\<rparr>))"

text \<open>\<^verbatim>\<open>validateForm\<close>: true when no error is recorded.\<close>

definition validateForm :: "ExpenseForm \<Rightarrow> bool" where
  "validateForm f =
     (let gross = or_zero (parseFloat (form_amount_gross f));
          net = or_zero (parseFloat (form_amount_net f));
          vat = or_zero (parseFloat (form_tax_vat f))
      in js_trim (form_vendor f) \<noteq> [] \<and>
         form_expense_date f \<noteq> [] \<and>
         \<not> (form_amount_gross f = EmptyText \<or> js_le (parseFloat (form_amount_gross f)) (Fin 0 0)) \<and>
         form_category_id f \<noteq> [] \<and>
         form_payment_method f \<noteq> [] \<and>
         \<not> js_gt (js_abs (js_sub (js_add net vat) gross)) lit_0_01)"

text \<open>The object given to \<^verbatim>\<open>insert\<close> on the expenses table.\<close>

record ExpenseInsert =
  new_employee_id :: string
  new_vendor :: jsstring
  new_expense_date :: jsstring
  new_amount_net :: jsnum
  new_tax_vat :: jsnum
  new_amount_gross :: jsnum
  new_currency :: jsstring
  new_category_id :: jsstring
  new_project_code_id :: "jsstring option"
  new_payment_method :: jsstring
  new_notes :: "jsstring option"
  new_receipt_file_id :: "string option"
  new_source :: expense_source
  new_status :: expense_status

definition expenseData :: "UploadState \<Rightarrow> string \<Rightarrow> string option \<Rightarrow> ExpenseInsert" where
  "expenseData st user_id fileId =
     (let f = st_formData st in
      \<lparr>new_employee_id = user_id,
       new_vendor = js_trim (form_vendor f),
       new_expense_date = form_expense_date f,
       new_amount_net = or_zero (parseFloat (form_amount_net f)),
       new_tax_vat = or_zero (parseFloat (form_tax_vat f)),
       new_amount_gross = parseFloat (form_amount_gross f),
       new_currency = form_currency f,
       new_category_id = form_category_id f,
       new_project_code_id =
         (if form_project_code_id f \<noteq> [] \<and> form_project_code_id f \<noteq> ascii ''none''
          then Some (form_project_code_id f) else None),
       new_payment_method = form_payment_method f,
       new_notes = (if form_notes f = [] then None else Some (form_notes f)),
       new_receipt_file_id = fileId,
       new_source = (case st_extractedData st of None \<Rightarrow> MANUAL | Some d \<Rightarrow> AI_EXTRACTED),
       new_status = PENDING\<rparr>)"

text \<open>
  What the backend answers during a save: the user of the session, the path of the
  stored receipt, the id of the new row in \<^verbatim>\<open>files\<close> (each \<open>None\<close> on an
  error), and whether the insert into \<^verbatim>\<open>expenses\<close> goes through.
\<close>

record Backend =
  session_user :: "string option"
  upload_path :: "string option"
  file_row_id :: "string option"
  expense_insert_ok :: bool

definition reset_after_save :: "UploadState \<Rightarrow> UploadState" where
  "reset_after_save st = st\<lparr>st_file := None, st_extractedData := None, st_formData := empty_form\<rparr>"

text \<open>
  \<^verbatim>\<open>saveExpense\<close>: the expense created, if any, and the state after. Every error
  is caught and leaves the state as it is.
\<close>

definition saveExpense :: "UploadState \<Rightarrow> Backend \<Rightarrow> ExpenseInsert option \<times> UploadState" where
  "saveExpense st b =
     (if \<not> validateForm (st_formData st) then (None, st)
      else case session_user b of
        None \<Rightarrow> (None, st)
      | Some user_id \<Rightarrow>
          (let insert_with = (\<lambda>fileId.
                 if expense_insert_ok b
                 then (Some (expenseData st user_id fileId), reset_after_save st)
                 else (None, st))
           in case st_file st of
                None \<Rightarrow> insert_with None
              | Some f \<Rightarrow>
                  (case upload_path b of
                     None \<Rightarrow> (None, st)
                   | Some path \<Rightarrow>
                       (case file_row_id b of
                          None \<Rightarrow> (None, st)
                        | Some fid \<Rightarrow> insert_with (Some fid)))))"

subsection \<open>Sequences of user actions\<close>

datatype UploadEvent =
    SelectFile UploadedFile
  | RemoveFile
  | Analyze "ExtractedData option"
  | EditForm ExpenseForm
  | ClearForm
  | Save Backend

fun step ::
  "(jsstring \<Rightarrow> jsstring) \<Rightarrow> UploadState \<Rightarrow> UploadEvent \<Rightarrow> ExpenseInsert option \<times> UploadState" where
  "step toLowerCase st (SelectFile f) = (None, handleFileSelect st f)"
| "step toLowerCase st RemoveFile = (None, remove_file st)"
| "step toLowerCase st (Analyze reply) = (None, analyzeReceipt toLowerCase st reply)"
| "step toLowerCase st (EditForm f) = (None, st\<lparr>st_formData := f\<rparr>)"
| "step toLowerCase st ClearForm = (None, clear_form st)"
| "step toLowerCase st (Save b) = saveExpense st b"

text \<open>The expenses created along a sequence of actions, and the state at its end.\<close>

fun run ::
  "(jsstring \<Rightarrow> jsstring) \<Rightarrow> UploadState \<Rightarrow> UploadEvent list \<Rightarrow> ExpenseInsert list \<times> UploadState" where
  "run toLowerCase st [] = ([], st)"
| "run toLowerCase st (ev # evs) =
     (case step toLowerCase st ev of
        (created, st') \<Rightarrow>
          (case run toLowerCase st' evs of
             (rest, st'') \<Rightarrow> ((case created of None \<Rightarrow> [] | Some r \<Rightarrow> [r]) @ rest, st'')))"

subsection \<open>Examples\<close>








section \<open>Results on the rate limiter\<close>

subsection \<open>The configured rules\<close>





lemma limit_for_rule: "config_for ep = Rule r \<Longrightarrow> limit_for ep = maxRequests r"
  by (auto simp: config_for_def limit_for_def split: option.splits config_value.splits)

lemma limit_for_pos: "1 \<le> limit_for ep"
  by (auto simp: limit_for_def rateLimitConfig_def default_rule_def)


subsection \<open>The handler within one window\<close>







lemma cfg_signup: "config_for ''/auth/signup''
     = Rule \<lparr>windowMs = 300000, maxRequests = 3, message = MsgSignup\<rparr>"
  by (simp add: config_for_def rateLimitConfig_def)

lemma cfg_analyze: "config_for ''/analyze-receipt''
     = Rule \<lparr>windowMs = 60000, maxRequests = 10, message = MsgAnalyzeReceipt\<rparr>"
  by (simp add: config_for_def rateLimitConfig_def)


subsection \<open>The invariant of the store\<close>

lemma isRateLimited_shape:
  "call_shape ip ep now store (snd (isRateLimited ip ep now store))"
proof (cases "config_for ep")
  case (Rule r)
  then show ?thesis
    by (auto simp: call_shape_def isRateLimited_def Let_def limit_for_rule split: option.splits)
next
  case InheritedFunction
  then show ?thesis
    by (auto simp: call_shape_def isRateLimited_def Let_def split: option.splits)
qed

lemma isRateLimited_preserves:
  assumes "\<forall>key e. store key = Some e \<longrightarrow> entry_within_limit key e"
  shows "\<forall>key e. snd (isRateLimited ip ep now store) key = Some e \<longrightarrow> entry_within_limit key e"
proof (intro allI impI)
  fix key e
  assume a: "snd (isRateLimited ip ep now store) key = Some e"
  show "entry_within_limit key e"
  proof (cases "key = getRateLimitKey ip ep")
    case False
    then have "store key = Some e"
      using a by (auto simp: isRateLimited_def Let_def split: option.splits if_splits)
    then show ?thesis using assms by blast
  next
    case True
    have N1: "1 \<le> limit_for ep" by (rule limit_for_pos)
    consider (fresh) "count e = 1"
      | (incr) e0 where "store key = Some e0" "below_limit (count e0) (config_for ep)"
          "e = e0\<lparr>count := count e0 + 1\<rparr>"
      | (same) "store key = Some e"
      using a True
      by (auto simp: isRateLimited_def Let_def split: option.splits if_splits)
    then show ?thesis
    proof cases
      case fresh
      then show ?thesis using N1 True by (auto simp: entry_within_limit_def)
    next
      case incr
      obtain r where r: "config_for ep = Rule r" and lt: "count e0 < maxRequests r"
        using incr(2) by (cases "config_for ep") simp_all
      have "Suc (count e0) \<le> limit_for ep" using lt by (simp add: limit_for_rule [OF r])
      then show ?thesis unfolding entry_within_limit_def using True incr(3)
        by (intro exI [of _ ip] exI [of _ ep]) simp
    next
      case same
      then show ?thesis using assms by blast
    qed
  qed
qed

lemma reachable_within_limit:
  "reachable store \<Longrightarrow> \<forall>key e. store key = Some e \<longrightarrow> entry_within_limit key e"
proof (induction rule: reachable.induct)
  case reachable_empty
  then show ?case by simp
next
  case (reachable_call store clientIP endpoint now)
  from reachable_call.IH show ?case by (rule isRateLimited_preserves)
qed

lemma key_decodes_uniquely:
  assumes "CHR '':'' \<notin> set ip" and "CHR '':'' \<notin> set ep"
      and "getRateLimitKey ip' ep' = getRateLimitKey ip ep"
  shows "ip' = ip \<and> ep' = ep"
proof -
  have "getRateLimitKey ip ep = getRateLimitKey ip' ep'"
    using assms(3) by (rule sym)
  then have "ip @ CHR '':'' # ep = ip' @ CHR '':'' # ep'"
    unfolding getRateLimitKey_def by simp
  then have "ip = ip' \<and> ep = ep'"
    by (simp only: append_Cons_eq_iff [OF assms(1) assms(2)])
  then show ?thesis by blast
qed

text \<open>
  Claim C10, as amended. In every store reachable from the empty one by calls of
  \<^verbatim>\<open>isRateLimited\<close>, each entry's count is at least 1 and at most the
  \<^verbatim>\<open>maxRequests\<close> of the rule configured for an endpoint its key was built from
  (the default rule for an endpoint that is not configured); when the client
  address and the endpoint contain no colon, the key encodes that endpoint only,
  and the bound is the one of that endpoint. A call either starts an entry with
  count 1, increments its key's count staying within \<^verbatim>\<open>maxRequests\<close>, or leaves
  the store unchanged.
\<close>

theorem store_invariant:
  assumes "reachable store"
  shows "(\<forall>key e. store key = Some e \<longrightarrow> entry_within_limit key e) \<and>
         (\<forall>clientIP endpoint e.
            CHR '':'' \<notin> set clientIP \<and> CHR '':'' \<notin> set endpoint \<and>
            store (getRateLimitKey clientIP endpoint) = Some e \<longrightarrow>
              1 \<le> count e \<and> count e \<le> limit_for endpoint) \<and>
         (\<forall>clientIP endpoint now.
            call_shape clientIP endpoint now store
              (snd (isRateLimited clientIP endpoint now store)))"
proof (intro conjI allI impI)
  fix key e assume "store key = Some e"
  then show "entry_within_limit key e" using reachable_within_limit [OF assms] by blast
next
  fix clientIP endpoint e
  assume a: "CHR '':'' \<notin> set clientIP \<and> CHR '':'' \<notin> set endpoint \<and>
            store (getRateLimitKey clientIP endpoint) = Some e"
  then have "entry_within_limit (getRateLimitKey clientIP endpoint) e"
    using reachable_within_limit [OF assms] by blast
  then obtain ip' ep' where d: "getRateLimitKey clientIP endpoint = getRateLimitKey ip' ep'"
      "1 \<le> count e" "count e \<le> limit_for ep'"
    by (auto simp: entry_within_limit_def)
  from a have c1: "CHR '':'' \<notin> set clientIP" and c2: "CHR '':'' \<notin> set endpoint"
    by blast+
  have "ip' = clientIP \<and> ep' = endpoint"
    using c1 c2 d(1) [symmetric] by (rule key_decodes_uniquely)
  then have "ep' = endpoint" by (rule conjunct2)
  then show "1 \<le> count e" "count e \<le> limit_for endpoint" using d by simp_all
next
  fix clientIP endpoint now
  show "call_shape clientIP endpoint now store (snd (isRateLimited clientIP endpoint now store))"
    by (rule isRateLimited_shape)
qed

text \<open>
  The theorem at the store after one sign-up call, and a second call on it.
\<close>

theorem store_invariant_witness:
  "reachable (snd (isRateLimited ''10.0.0.1'' ''/auth/signup'' 0 Map.empty)) \<and>
   snd (isRateLimited ''10.0.0.1'' ''/auth/signup'' 0 Map.empty)
     (getRateLimitKey ''10.0.0.1'' ''/auth/signup'')
     = Some \<lparr>count = 1, resetTime = Time 300000\<rparr> \<and>
   entry_within_limit (getRateLimitKey ''10.0.0.1'' ''/auth/signup'')
     \<lparr>count = 1, resetTime = Time 300000\<rparr> \<and>
   count \<lparr>count = 1, resetTime = Time 300000\<rparr> \<le> limit_for ''/auth/signup'' \<and>
   limit_for ''/auth/signup'' = 3 \<and>
   call_shape ''10.0.0.1'' ''/auth/signup'' 5
     (snd (isRateLimited ''10.0.0.1'' ''/auth/signup'' 0 Map.empty))
     (snd (isRateLimited ''10.0.0.1'' ''/auth/signup'' 5
        (snd (isRateLimited ''10.0.0.1'' ''/auth/signup'' 0 Map.empty))))"
proof -
  let ?s = "snd (isRateLimited ''10.0.0.1'' ''/auth/signup'' 0 Map.empty)"
  have r: "reachable ?s"
    by (rule reachable_call [OF reachable_empty])
  have v: "?s (getRateLimitKey ''10.0.0.1'' ''/auth/signup'')
     = Some \<lparr>count = 1, resetTime = Time 300000\<rparr>"
    by (simp add: isRateLimited_def getRateLimitKey_def cfg_signup Let_def)
  have c: "CHR '':'' \<notin> set ''10.0.0.1'' \<and> CHR '':'' \<notin> set ''/auth/signup''"
    by simp
  note th = store_invariant [OF r]
  have e: "entry_within_limit (getRateLimitKey ''10.0.0.1'' ''/auth/signup'')
     \<lparr>count = 1, resetTime = Time 300000\<rparr>"
    by (rule th [THEN conjunct1, rule_format, OF v])
  have b: "count \<lparr>count = 1, resetTime = Time 300000\<rparr> \<le> limit_for ''/auth/signup''"
    using th [THEN conjunct2, THEN conjunct1, rule_format,
        of "''10.0.0.1''" "''/auth/signup''" "\<lparr>count = 1, resetTime = Time 300000\<rparr>"] c v
    by (simp del: set_simps)
  have m: "limit_for ''/auth/signup'' = 3"
    by (simp add: limit_for_def rateLimitConfig_def)
  have s: "call_shape ''10.0.0.1'' ''/auth/signup'' 5 ?s
     (snd (isRateLimited ''10.0.0.1'' ''/auth/signup'' 5 ?s))"
    by (rule th [THEN conjunct2, THEN conjunct2, rule_format])
  show ?thesis using r v e b m s by (intro conjI)
qed

lemma cfg_colon_path: "config_for ''/p:/auth/signup'' = Rule default_rule"
  by (simp add: config_for_def rateLimitConfig_def object_prototype_names_def)

lemma four_calls:
  "snd (isRateLimited_seq ''x'' ''/p:/auth/signup'' [0, 1, 2, 3] Map.empty)
     = [''x:/p:/auth/signup'' \<mapsto> \<lparr>count = 4, resetTime = Time 60000\<rparr>]"
  by (simp add: isRateLimited_def getRateLimitKey_def cfg_colon_path default_rule_def Let_def
      eval_nat_numeral)

lemma seq_snd_Cons:
  "snd (isRateLimited_seq ip ep (t # ts) store)
     = snd (isRateLimited_seq ip ep ts (snd (isRateLimited ip ep t store)))"
  by (simp split: prod.splits)

lemma seq_reachable:
  "reachable store \<Longrightarrow> reachable (snd (isRateLimited_seq ip ep ts store))"
proof (induction ts arbitrary: store)
  case Nil
  then show ?case by simp
next
  case (Cons t ts)
  have "reachable (snd (isRateLimited ip ep t store))"
    using Cons.prems by (rule reachable_call)
  then have "reachable (snd (isRateLimited_seq ip ep ts (snd (isRateLimited ip ep t store))))"
    by (rule Cons.IH)
  then show ?case by (simp only: seq_snd_Cons)
qed

text \<open>
  Claim C10 as stated bounds every entry by the limit of the endpoint encoded in
  its key. A key is the client address, a colon and the endpoint, and both may
  contain colons. Four calls for the client \<^verbatim>\<open>x\<close> and the pathname
  \<^verbatim>\<open>/p:/auth/signup\<close>, which has no rule of its own and is counted against the
  default limit of 30, leave a count of 4 under \<^verbatim>\<open>x:/p:/auth/signup\<close>. That is
  also the key of the client \<^verbatim>\<open>x:/p\<close> and the endpoint \<^verbatim>\<open>/auth/signup\<close>, whose
  limit is 3.
\<close>

theorem store_invariant_counterexample:
  "reachable (snd (isRateLimited_seq ''x'' ''/p:/auth/signup'' [0, 1, 2, 3] Map.empty)) \<and>
   snd (isRateLimited_seq ''x'' ''/p:/auth/signup'' [0, 1, 2, 3] Map.empty)
     (getRateLimitKey ''x:/p'' ''/auth/signup'') = Some \<lparr>count = 4, resetTime = Time 60000\<rparr> \<and>
   getRateLimitKey ''x:/p'' ''/auth/signup'' = getRateLimitKey ''x'' ''/p:/auth/signup'' \<and>
   limit_for ''/auth/signup'' = 3 \<and>
   \<not> count \<lparr>count = 4, resetTime = Time 60000\<rparr> \<le> limit_for ''/auth/signup''"
proof -
  have r: "reachable (snd (isRateLimited_seq ''x'' ''/p:/auth/signup'' [0, 1, 2, 3] Map.empty))"
    by (rule seq_reachable [OF reachable_empty])
  have k: "getRateLimitKey ''x:/p'' ''/auth/signup'' = ''x:/p:/auth/signup''"
    "getRateLimitKey ''x'' ''/p:/auth/signup'' = ''x:/p:/auth/signup''"
    by (simp_all add: getRateLimitKey_def)
  have m: "limit_for ''/auth/signup'' = 3"
    by (simp add: limit_for_def rateLimitConfig_def)
  show ?thesis using r unfolding four_calls k m by simp
qed

subsection \<open>The key a request is counted under\<close>

lemma isRateLimited_frame:
  "key \<noteq> getRateLimitKey ip ep \<Longrightarrow> snd (isRateLimited ip ep now store) key = store key"
  by (auto simp: isRateLimited_def Let_def split: option.splits)

lemma isRateLimited_reads_key:
  "store (getRateLimitKey ip ep) = store' (getRateLimitKey ip ep) \<Longrightarrow>
   fst (isRateLimited ip ep now store) = fst (isRateLimited ip ep now store')"
  by (auto simp: isRateLimited_def Let_def split: option.splits)

lemma handler_snd: "snd (handler req now now2 now3 store)
   = snd (isRateLimited (clientIP_of req) (pathname req) now store)"
  by (auto simp: handler_def Let_def split: prod.splits option.splits jstime.splits)

lemma handler_fst_reads_key:
  assumes "store (getRateLimitKey (clientIP_of req) (pathname req))
         = store' (getRateLimitKey (clientIP_of req) (pathname req))"
  shows "fst (handler req now now2 now3 store) = fst (handler req now now2 now3 store')"
proof -
  have "fst (isRateLimited (clientIP_of req) (pathname req) now store)
      = fst (isRateLimited (clientIP_of req) (pathname req) now store')"
    using assms by (rule isRateLimited_reads_key)
  then show ?thesis
    by (auto simp: handler_def Let_def split: prod.splits option.splits jstime.splits)
qed

lemma derived_key_eq: "derived_key req = (clientIP_of req, pathname req)"
  by (cases "x_forwarded_for req"; cases "x_real_ip req")
     (simp_all add: derived_key_def clientIP_of_def js_or_def)

text \<open>
  Claim C9, as amended. The handler's answer and its effect on the store depend on
  the request only through the derived key: the first non-empty of the
  \<^verbatim>\<open>x-forwarded-for\<close> and \<^verbatim>\<open>x-real-ip\<close> values, else \<^verbatim>\<open>unknown\<close>, paired
  with the pathname.

  \<^item> Requests with the same derived key, and so requests that agree on the two
    headers and the pathname, get the same answer from the same store and clock.
  \<^item> The client address the request is counted under is the \<^verbatim>\<open>x-forwarded-for\<close>
    value when that is not empty; else the \<^verbatim>\<open>x-real-ip\<close> value when that is not
    empty; else \<^verbatim>\<open>unknown\<close>.
  \<^item> A request without both headers, or with them empty, is counted under the key
    \<^verbatim>\<open>unknown:<pathname>\<close>.
  \<^item> A request touches no other key than its own and its answer reads no other
    key.
\<close>

theorem decision_by_derived_key:
  "(derived_key r1 = derived_key r2 \<longrightarrow>
      handler r1 now now2 now3 store = handler r2 now now2 now3 store) \<and>
   (x_forwarded_for r1 = x_forwarded_for r2 \<and> x_real_ip r1 = x_real_ip r2 \<and>
    pathname r1 = pathname r2 \<longrightarrow>
      handler r1 now now2 now3 store = handler r2 now now2 now3 store) \<and>
   (\<forall>v. x_forwarded_for r1 = Some v \<and> v \<noteq> [] \<longrightarrow> clientIP_of r1 = v) \<and>
   (\<forall>v. (x_forwarded_for r1 = None \<or> x_forwarded_for r1 = Some []) \<and>
        x_real_ip r1 = Some v \<and> v \<noteq> [] \<longrightarrow> clientIP_of r1 = v) \<and>
   ((x_forwarded_for r1 = None \<or> x_forwarded_for r1 = Some []) \<and>
    (x_real_ip r1 = None \<or> x_real_ip r1 = Some []) \<longrightarrow>
      clientIP_of r1 = ''unknown'' \<and>
      getRateLimitKey (clientIP_of r1) (pathname r1) = ''unknown:'' @ pathname r1) \<and>
   (\<forall>key. key \<noteq> getRateLimitKey (fst (derived_key r1)) (snd (derived_key r1)) \<longrightarrow>
      snd (handler r1 now now2 now3 store) key = store key) \<and>
   (store (getRateLimitKey (fst (derived_key r1)) (snd (derived_key r1)))
      = store' (getRateLimitKey (fst (derived_key r1)) (snd (derived_key r1))) \<longrightarrow>
    fst (handler r1 now now2 now3 store) = fst (handler r1 now now2 now3 store'))"
proof (intro conjI impI allI)
  assume "derived_key r1 = derived_key r2"
  then have "clientIP_of r1 = clientIP_of r2 \<and> pathname r1 = pathname r2"
    by (simp add: derived_key_eq)
  then show "handler r1 now now2 now3 store = handler r2 now now2 now3 store"
    by (simp add: handler_def)
next
  assume "x_forwarded_for r1 = x_forwarded_for r2 \<and> x_real_ip r1 = x_real_ip r2 \<and>
          pathname r1 = pathname r2"
  then show "handler r1 now now2 now3 store = handler r2 now now2 now3 store"
    by (simp add: handler_def clientIP_of_def)
next
  fix v assume "x_forwarded_for r1 = Some v \<and> v \<noteq> []"
  then show "clientIP_of r1 = v" by (simp add: clientIP_of_def js_or_def)
next
  fix v assume "(x_forwarded_for r1 = None \<or> x_forwarded_for r1 = Some []) \<and>
        x_real_ip r1 = Some v \<and> v \<noteq> []"
  then show "clientIP_of r1 = v" by (auto simp: clientIP_of_def js_or_def)
next
  assume a: "(x_forwarded_for r1 = None \<or> x_forwarded_for r1 = Some []) \<and>
    (x_real_ip r1 = None \<or> x_real_ip r1 = Some [])"
  then show u: "clientIP_of r1 = ''unknown''" by (auto simp: clientIP_of_def js_or_def)
  show "getRateLimitKey (clientIP_of r1) (pathname r1) = ''unknown:'' @ pathname r1"
    unfolding u by (simp add: getRateLimitKey_def)
next
  fix key assume "key \<noteq> getRateLimitKey (fst (derived_key r1)) (snd (derived_key r1))"
  then show "snd (handler r1 now now2 now3 store) key = store key"
    by (simp add: handler_snd isRateLimited_frame derived_key_eq)
next
  assume "store (getRateLimitKey (fst (derived_key r1)) (snd (derived_key r1)))
      = store' (getRateLimitKey (fst (derived_key r1)) (snd (derived_key r1)))"
  then show "fst (handler r1 now now2 now3 store) = fst (handler r1 now now2 now3 store')"
    by (intro handler_fst_reads_key) (simp add: derived_key_eq)
qed

text \<open>
  The theorem at a request without either header: another peer address changes
  nothing, an empty \<^verbatim>\<open>x-forwarded-for\<close> header changes nothing, the counter is the
  one keyed \<^verbatim>\<open>unknown:/analyze-receipt\<close>, and the counter of another client
  is neither touched nor read. And at a request with both headers, which is counted
  under its \<^verbatim>\<open>x-forwarded-for\<close> value, and under its \<^verbatim>\<open>x-real-ip\<close> value once
  the first header is empty.
\<close>

theorem decision_by_derived_key_witness:
  "x_forwarded_for request_bare = None \<and> x_real_ip request_bare = None \<and>
   getRateLimitKey (clientIP_of request_bare) (pathname request_bare)
     = ''unknown:/analyze-receipt'' \<and>
   handler request_bare 0 0 0 Map.empty
     = handler (request_bare\<lparr>peer_address := ''203.0.113.9''\<rparr>) 0 0 0 Map.empty \<and>
   derived_key (request_bare\<lparr>x_forwarded_for := Some ''''\<rparr>) = derived_key request_bare \<and>
   handler request_bare 0 0 0 Map.empty
     = handler (request_bare\<lparr>x_forwarded_for := Some ''''\<rparr>) 0 0 0 Map.empty \<and>
   snd (handler request_bare 0 0 0 Map.empty) ''unknown:/analyze-receipt''
     = Some \<lparr>count = 1, resetTime = Time 60000\<rparr> \<and>
   snd (handler request_bare 0 0 0 Map.empty) ''10.0.0.1:/analyze-receipt'' = None \<and>
   fst (handler request_bare 0 0 0 Map.empty)
     = fst (handler request_bare 0 0 0
              [''10.0.0.1:/analyze-receipt'' \<mapsto> \<lparr>count = 10, resetTime = Time 60000\<rparr>]) \<and>
   x_forwarded_for request_both = Some ''10.0.0.1'' \<and>
   clientIP_of request_both = ''10.0.0.1'' \<and>
   x_real_ip (request_both\<lparr>x_forwarded_for := Some ''''\<rparr>) = Some ''10.0.0.2'' \<and>
   clientIP_of (request_both\<lparr>x_forwarded_for := Some ''''\<rparr>) = ''10.0.0.2''"
proof -
  let ?r2 = "request_bare\<lparr>peer_address := ''203.0.113.9''\<rparr>"
  let ?r3 = "request_bare\<lparr>x_forwarded_for := Some ''''\<rparr>"
  let ?r4 = "request_both\<lparr>x_forwarded_for := Some ''''\<rparr>"
  let ?s' = "[''10.0.0.1:/analyze-receipt'' \<mapsto> \<lparr>count = 10, resetTime = Time 60000\<rparr>]"
  note th = decision_by_derived_key [of request_bare ?r2 0 0 0 Map.empty ?s']
  note th3 = decision_by_derived_key [of request_bare ?r3 0 0 0 Map.empty ?s']
  note th4 = decision_by_derived_key [of request_both request_both 0 0 0 Map.empty Map.empty]
  note th5 = decision_by_derived_key [of ?r4 ?r4 0 0 0 Map.empty Map.empty]
  have a: "x_forwarded_for request_bare = None" "x_real_ip request_bare = None"
    by (simp_all add: request_bare_def)
  have b: "x_forwarded_for request_bare = x_forwarded_for ?r2 \<and>
           x_real_ip request_bare = x_real_ip ?r2 \<and> pathname request_bare = pathname ?r2"
    by simp
  have c: "pathname request_bare = ''/analyze-receipt''"
    by (simp add: request_bare_def)
  have ip: "clientIP_of request_bare = ''unknown''"
    by (simp add: clientIP_of_def js_or_def request_bare_def)
  have k: "getRateLimitKey (clientIP_of request_bare) (pathname request_bare)
             = ''unknown:/analyze-receipt''"
    unfolding ip c by (simp add: getRateLimitKey_def)
  have dk: "derived_key request_bare = (''unknown'', ''/analyze-receipt'')"
    by (simp add: derived_key_def request_bare_def)
  have k': "getRateLimitKey (fst (derived_key request_bare)) (snd (derived_key request_bare))
             = ''unknown:/analyze-receipt''"
    using k by (simp add: dk ip c)
  have e: "handler request_bare 0 0 0 Map.empty = handler ?r2 0 0 0 Map.empty"
    using th b by blast
  have dk3: "derived_key ?r3 = derived_key request_bare"
    by (simp add: derived_key_def request_bare_def)
  have e3: "handler request_bare 0 0 0 Map.empty = handler ?r3 0 0 0 Map.empty"
    using th3 [THEN conjunct1] dk3 [symmetric] by (rule mp)
  have st: "isRateLimited ''unknown'' ''/analyze-receipt'' 0 Map.empty
     = (not_limited, [''unknown:/analyze-receipt'' \<mapsto> \<lparr>count = 1, resetTime = Time 60000\<rparr>])"
    by (simp add: isRateLimited_def getRateLimitKey_def cfg_analyze Let_def)
  have d: "snd (handler request_bare 0 0 0 Map.empty) ''unknown:/analyze-receipt''
     = Some \<lparr>count = 1, resetTime = Time 60000\<rparr>"
    by (simp add: handler_snd ip c st)
  have f: "snd (handler request_bare 0 0 0 Map.empty) ''10.0.0.1:/analyze-receipt'' = None"
    using th [THEN conjunct2, THEN conjunct2, THEN conjunct2, THEN conjunct2, THEN conjunct2,
        THEN conjunct1, rule_format, of "''10.0.0.1:/analyze-receipt''"] k' by simp
  have same: "Map.empty (getRateLimitKey (fst (derived_key request_bare)) (snd (derived_key request_bare)))
      = ?s' (getRateLimitKey (fst (derived_key request_bare)) (snd (derived_key request_bare)))"
    unfolding k' by simp
  have g: "fst (handler request_bare 0 0 0 Map.empty) = fst (handler request_bare 0 0 0 ?s')"
    using th [THEN conjunct2, THEN conjunct2, THEN conjunct2, THEN conjunct2, THEN conjunct2,
        THEN conjunct2] same by (rule mp)
  have x4: "x_forwarded_for request_both = Some ''10.0.0.1''"
    by (simp add: request_both_def)
  have i4: "clientIP_of request_both = ''10.0.0.1''"
    using th4 [THEN conjunct2, THEN conjunct2, THEN conjunct1, rule_format, of "''10.0.0.1''"] x4
    by simp
  have x5: "x_forwarded_for ?r4 = Some []" "x_real_ip ?r4 = Some ''10.0.0.2''"
    by (simp_all add: request_both_def)
  have i5: "clientIP_of ?r4 = ''10.0.0.2''"
    using th5 [THEN conjunct2, THEN conjunct2, THEN conjunct2, THEN conjunct1, rule_format,
        of "''10.0.0.2''"] x5
    by simp
  show ?thesis using a k e dk3 e3 d f g x4 i4 x5(2) i5 by (intro conjI)
qed

lemma store_after_three:
  "snd (isRateLimited_seq ''10.0.0.1'' ''/auth/signup'' [0, 1, 2] Map.empty)
     = [''10.0.0.1:/auth/signup'' \<mapsto> \<lparr>count = 3, resetTime = Time 300000\<rparr>]"
  by (simp add: isRateLimited_def getRateLimitKey_def cfg_signup Let_def numeral_3_eq_3)

text \<open>
  Claim C9 as stated takes the first header that is present. Two requests with an
  empty \<^verbatim>\<open>x-forwarded-for\<close> header then have the same derived key, the empty
  address paired with the pathname; the source skips the empty value and keys them by
  their different \<^verbatim>\<open>x-real-ip\<close>. After three sign-up calls of the first, the
  first is refused and the second is let through, from the same store at the same
  clock.
\<close>

theorem first_present_key_counterexample:
  "clientIP_first_present request_a = clientIP_first_present request_b \<and>
   pathname request_a = pathname request_b \<and>
   fst (handler request_a 10 10 10
          (snd (isRateLimited_seq (clientIP_of request_a) (pathname request_a) [0, 1, 2] Map.empty)))
     = TooMany429 (Some MsgSignup) 300 300 3 300000 \<and>
   fst (handler request_b 10 10 10
          (snd (isRateLimited_seq (clientIP_of request_a) (pathname request_a) [0, 1, 2] Map.empty)))
     = Allowed200"
proof -
  have ipa: "clientIP_of request_a = ''10.0.0.1''" and ipb: "clientIP_of request_b = ''10.0.0.2''"
    by (simp_all add: clientIP_of_def js_or_def request_a_def request_b_def)
  have pa: "pathname request_a = ''/auth/signup''" and pb: "pathname request_b = ''/auth/signup''"
    by (simp_all add: request_a_def request_b_def)
  have fp: "clientIP_first_present request_a = clientIP_first_present request_b"
    by (simp add: clientIP_first_present_def request_a_def request_b_def)
  have la: "isRateLimited ''10.0.0.1'' ''/auth/signup'' 10
              [''10.0.0.1:/auth/signup'' \<mapsto> \<lparr>count = 3, resetTime = Time 300000\<rparr>]
            = (\<lparr>limited = True, result_message = Some MsgSignup,
                 result_resetTime = Some (Time 300000)\<rparr>,
               [''10.0.0.1:/auth/signup'' \<mapsto> \<lparr>count = 3, resetTime = Time 300000\<rparr>])"
    by (simp add: isRateLimited_def getRateLimitKey_def cfg_signup Let_def)
  have lb: "fst (isRateLimited ''10.0.0.2'' ''/auth/signup'' 10
              [''10.0.0.1:/auth/signup'' \<mapsto> \<lparr>count = 3, resetTime = Time 300000\<rparr>])
            = not_limited"
    by (simp add: isRateLimited_def getRateLimitKey_def cfg_signup Let_def)
  have ra: "retryAfter 300000 10 = 300" by (simp add: retryAfter_def)
  have rc: "limit_header ''/auth/signup'' = Some 3"
    by (simp add: limit_header_def rateLimitConfig_def)
  have ha: "fst (handler request_a 10 10 10
              [''10.0.0.1:/auth/signup'' \<mapsto> \<lparr>count = 3, resetTime = Time 300000\<rparr>])
            = TooMany429 (Some MsgSignup) 300 300 3 300000"
    unfolding handler_def Let_def ipa pa la by (simp add: ra rc)
  have hb: "fst (handler request_b 10 10 10
              [''10.0.0.1:/auth/signup'' \<mapsto> \<lparr>count = 3, resetTime = Time 300000\<rparr>])
            = Allowed200"
  proof -
    obtain s' where "isRateLimited ''10.0.0.2'' ''/auth/signup'' 10
              [''10.0.0.1:/auth/signup'' \<mapsto> \<lparr>count = 3, resetTime = Time 300000\<rparr>]
            = (not_limited, s')"
      using lb by (metis prod.collapse)
    then show ?thesis
      unfolding handler_def Let_def ipb pb by (simp add: not_limited_def)
  qed
  show ?thesis
    unfolding ipa pa store_after_three using fp ha hb pb by simp
qed

section \<open>Results on the receipt analysis\<close>

subsection \<open>Rounding to a double\<close>

text \<open>
  Comparisons of finite values are comparisons of the reals they stand for; a
  rounded result that stays far from the largest double is finite and within half a
  unit in the last place of the exact one, that is within \<open>|x| / 2^53 + 2^(-1075)\<close>.
\<close>

lemma two_powr_int: "0 \<le> k \<Longrightarrow> 2 powr real_of_int k = 2 ^ nat k"
  by (simp add: powr_real_of_int)

lemma valof_shift: "0 \<le> k \<Longrightarrow> valof (m * 2 ^ nat k) e = valof m (e + k)"
  by (simp add: valof_def powr_add two_powr_int)

lemma valof_add: "valof (a + b) e = valof a e + valof b e"
  by (simp add: valof_def algebra_simps)

lemma valof_align:
  assumes "e = min e1 e2"
  shows "valof (m1 * 2 ^ nat (e1 - e) + m2 * 2 ^ nat (e2 - e)) e = valof m1 e1 + valof m2 e2"
proof -
  have "0 \<le> e1 - e" "0 \<le> e2 - e" using assms by auto
  then show ?thesis by (simp add: valof_add valof_shift)
qed

lemma valof_less_same: "(a < b) = (valof a e < valof b e)"
  by (simp add: valof_def)

lemma valof_less_align:
  assumes "e = min e1 e2"
  shows "(m1 * 2 ^ nat (e1 - e) < m2 * 2 ^ nat (e2 - e)) = (valof m1 e1 < valof m2 e2)"
proof -
  have k: "0 \<le> e1 - e" "0 \<le> e2 - e" using assms by auto
  have a: "valof (m1 * 2 ^ nat (e1 - e)) e = valof m1 e1"
    using valof_shift [OF k(1), of m1 e] by simp
  have b: "valof (m2 * 2 ^ nat (e2 - e)) e = valof m2 e2"
    using valof_shift [OF k(2), of m2 e] by simp
  show ?thesis
    using valof_less_same [of "m1 * 2 ^ nat (e1 - e)" "m2 * 2 ^ nat (e2 - e)" e]
    by (simp only: a b)
qed

lemma js_gt_valof: "js_gt (Fin m1 e1) (Fin m2 e2) = (valof m1 e1 > valof m2 e2)"
  using valof_less_align [of "min e1 e2" e2 e1 m2 m1]
  by (simp add: Let_def min.commute)

lemma js_le_valof: "js_le (Fin m1 e1) (Fin m2 e2) = (valof m1 e1 \<le> valof m2 e2)"
  using valof_less_align [of "min e1 e2" e2 e1 m2 m1]
  by (simp add: Let_def min.commute not_less [symmetric])

lemma round_half_even_error:
  assumes "0 < d"
  shows "\<bar>2 * (round_half_even m d * d - m)\<bar> \<le> d"
proof -
  define f where "f = m div d"
  define r where "r = m mod d"
  have m: "m = f * d + r" by (simp add: f_def r_def)
  have r: "0 \<le> r" "r < d" using assms by (simp_all add: r_def)
  have rhe: "round_half_even m d =
      (if 2 * r < d then f else if 2 * r > d then f + 1 else if even f then f else f + 1)"
    by (simp add: round_half_even_def f_def r_def Let_def)
  have a: "2 * (f * d - m) = - (2 * r)" using m by simp
  have b: "2 * ((f + 1) * d - m) = 2 * d - 2 * r" using m by (simp add: algebra_simps)
  consider "round_half_even m d = f" "2 * r \<le> d"
    | "round_half_even m d = f + 1" "d \<le> 2 * r"
    unfolding rhe by (cases "2 * r < d"; cases "2 * r > d"; cases "even f") auto
  then show ?thesis
  proof cases
    case 1
    then show ?thesis using a r by simp
  next
    case 2
    then show ?thesis using b r by simp
  qed
qed

lemma valof_abs: "\<bar>valof m e\<bar> = valof \<bar>m\<bar> e"
  by (simp add: valof_def abs_mult)

lemma valof_lower:
  assumes "m \<noteq> 0"
  shows "2 powr real_of_int (e + bitlen \<bar>m\<bar> - 1) \<le> \<bar>valof m e\<bar>"
proof -
  have pos: "0 < \<bar>m\<bar>" using assms by simp
  have n1: "1 \<le> bitlen \<bar>m\<bar>"
    using pos bitlen_eq_zero_iff [of "\<bar>m\<bar>"] bitlen_nonneg [of "\<bar>m\<bar>"] by linarith
  have "2 ^ nat (bitlen \<bar>m\<bar> - 1) \<le> \<bar>m\<bar>"
    using bitlen_bounds [OF pos] by simp
  then have "real_of_int (2 ^ nat (bitlen \<bar>m\<bar> - 1)) \<le> real_of_int \<bar>m\<bar>"
    by (rule of_int_le_iff [THEN iffD2])
  moreover have "2 powr real_of_int (bitlen \<bar>m\<bar> - 1) = 2 ^ nat (bitlen \<bar>m\<bar> - 1)"
    using n1 by (intro two_powr_int) simp
  ultimately have "2 powr real_of_int (bitlen \<bar>m\<bar> - 1) \<le> real_of_int \<bar>m\<bar>"
    by simp
  then have "2 powr real_of_int (bitlen \<bar>m\<bar> - 1) * 2 powr real_of_int e
               \<le> real_of_int \<bar>m\<bar> * 2 powr real_of_int e"
    by (rule mult_right_mono) simp
  then show ?thesis
    by (simp add: valof_abs valof_def powr_add [symmetric] algebra_simps)
qed

lemma round64_unfold:
  assumes "m \<noteq> 0" and "E = e + bitlen \<bar>m\<bar> - 1" and "q = max (E - 52) (- 1074)"
    and "m' = round_half_even m (2 ^ nat (q - e))"
  shows "round64 m e =
          (if q \<le> e then (if 1024 \<le> E then infinity_of m else Fin m e)
           else if 1025 \<le> bitlen \<bar>m'\<bar> + q then infinity_of m else Fin m' q)"
  using assms(1) unfolding assms(2-4) by (simp only: round64_def Let_def if_False)

lemma round64_error:
  assumes "\<bar>valof m e\<bar> \<le> 2 ^ 100"
  shows "\<exists>m' e'. round64 m e = Fin m' e' \<and>
           \<bar>valof m' e' - valof m e\<bar> \<le> \<bar>valof m e\<bar> / 2 ^ 53 + 2 powr (- 1075)"
proof (cases "m = 0")
  case True
  then show ?thesis by (simp add: round64_def valof_def)
next
  case False
  define E where "E = e + bitlen \<bar>m\<bar> - 1"
  define q where "q = max (E - 52) (- 1074)"
  let ?x = "valof m e"
  have lower: "2 powr real_of_int E \<le> \<bar>?x\<bar>"
    unfolding E_def by (rule valof_lower [OF False])
  have E100: "E \<le> 100"
  proof (rule ccontr)
    assume "\<not> E \<le> 100"
    then have "(2::real) powr 101 \<le> 2 powr real_of_int E" by (intro powr_mono) auto
    also have "\<dots> \<le> 2 ^ 100" using lower assms by linarith
    finally show False by simp
  qed
  show ?thesis
  proof (cases "q \<le> e")
    case True
    then have "round64 m e = Fin m e"
      using E100 by (simp add: round64_unfold [OF False E_def q_def refl])
    then show ?thesis by simp
  next
    case qe: False
    define s where "s = nat (q - e)"
    define d :: int where "d = 2 ^ s"
    define m' where "m' = round_half_even m d"
    have dpos: "0 < d" by (simp add: d_def)
    have s: "real_of_int q = real_of_int e + real s" using qe by (simp add: s_def)
    have pq: "2 powr real_of_int q = real_of_int d * 2 powr real_of_int e"
      unfolding s by (simp add: powr_add d_def powr_realpow)
    have "\<bar>2 * (m' * d - m)\<bar> \<le> d"
      unfolding m'_def by (rule round_half_even_error [OF dpos])
    then have "real_of_int \<bar>2 * (m' * d - m)\<bar> \<le> real_of_int d"
      by (rule of_int_le_iff [THEN iffD2])
    moreover have "real_of_int \<bar>2 * (m' * d - m)\<bar>
                     = 2 * \<bar>real_of_int m' * real_of_int d - real_of_int m\<bar>"
      by (simp only: of_int_abs of_int_mult of_int_diff abs_mult of_int_numeral abs_numeral)
    ultimately have "2 * \<bar>real_of_int m' * real_of_int d - real_of_int m\<bar> \<le> real_of_int d"
      by (simp only:)
    then have i: "\<bar>real_of_int m' * real_of_int d - real_of_int m\<bar> \<le> real_of_int d / 2"
      by (simp only: le_divide_eq_numeral1 mult.commute)
    have "valof m' q - ?x = (real_of_int m' * real_of_int d - real_of_int m) * 2 powr real_of_int e"
      by (simp add: valof_def pq algebra_simps)
    then have "\<bar>valof m' q - ?x\<bar>
                 = \<bar>real_of_int m' * real_of_int d - real_of_int m\<bar> * 2 powr real_of_int e"
      by (simp add: abs_mult)
    also have "\<dots> \<le> (real_of_int d / 2) * 2 powr real_of_int e"
      using i by (rule mult_right_mono) simp
    also have "\<dots> = 2 powr real_of_int q / 2" by (simp add: pq)
    finally have err: "\<bar>valof m' q - ?x\<bar> \<le> 2 powr real_of_int q / 2" .
    have qb: "2 powr real_of_int q / 2 \<le> \<bar>?x\<bar> / 2 ^ 53 + 2 powr (- 1075)"
    proof (cases "- 1074 \<le> E - 52")
      case True
      then have "q = E - 52" by (simp add: q_def)
      then have "2 powr real_of_int q / 2 = 2 powr real_of_int E / 2 ^ 53"
        by (simp add: powr_diff)
      also have "\<dots> \<le> \<bar>?x\<bar> / 2 ^ 53" using lower by (simp add: divide_right_mono)
      finally show ?thesis by (simp add: add_increasing2)
    next
      case False
      then have "q = - 1074" by (simp add: q_def)
      then have "2 powr real_of_int q / 2 = 2 powr (- 1075)"
        by (simp add: powr_minus field_simps flip: powr_numeral)
      then show ?thesis by simp
    qed
    have berr: "\<bar>valof m' q - ?x\<bar> \<le> \<bar>?x\<bar> / 2 ^ 53 + 2 powr (- 1075)"
      using err qb by linarith
    have nov: "\<not> 1025 \<le> bitlen \<bar>m'\<bar> + q"
    proof
      assume ov: "1025 \<le> bitlen \<bar>m'\<bar> + q"
      have "q \<le> 48" using E100 by (simp add: q_def)
      then have "m' \<noteq> 0" using ov by auto
      from valof_lower [OF this, of q]
      have "2 powr real_of_int (q + bitlen \<bar>m'\<bar> - 1) \<le> \<bar>valof m' q\<bar>" .
      moreover have "(2::real) powr 1024 \<le> 2 powr real_of_int (q + bitlen \<bar>m'\<bar> - 1)"
        using ov by (intro powr_mono) auto
      ultimately have big: "(2::real) powr 1024 \<le> \<bar>valof m' q\<bar>" by linarith
      have "(2::real) powr (- 1075) \<le> 2 powr 0" by (intro powr_mono) auto
      then have small: "(2::real) powr (- 1075) \<le> 1" by simp
      have "\<bar>?x\<bar> / 2 ^ 53 \<le> \<bar>?x\<bar>" by (simp add: field_simps)
      then have "\<bar>valof m' q\<bar> \<le> 2 * 2 ^ 100 + 1"
        using berr assms small by linarith
      also have "\<dots> \<le> (2::real) powr 102" by simp
      finally have "(2::real) powr 1024 \<le> 2 powr 102" using big by linarith
      then show False by simp
    qed
    have "round64 m e = Fin m' q"
      using qe nov
      by (simp add: round64_unfold [OF \<open>m \<noteq> 0\<close> E_def q_def m'_def [unfolded d_def s_def]])
    then show ?thesis using berr by blast
  qed
qed

lemma eta_small: "(2::real) powr (- 1075) \<le> 1 / 2 ^ 53"
proof -
  have "(2::real) powr (- 1075) \<le> 2 powr (- 53)" by (intro powr_mono) auto
  also have "\<dots> = 1 / 2 ^ 53" by (simp add: powr_minus_divide)
  finally show ?thesis .
qed

lemma js_add_error:
  assumes "\<bar>valof m1 e1 + valof m2 e2\<bar> \<le> 10 ^ 14"
  shows "\<exists>m e. js_add (Fin m1 e1) (Fin m2 e2) = Fin m e \<and>
           \<bar>valof m e - (valof m1 e1 + valof m2 e2)\<bar>
             \<le> \<bar>valof m1 e1 + valof m2 e2\<bar> / 2 ^ 53 + 1 / 2 ^ 53"
proof -
  define e where "e = min e1 e2"
  define m where "m = m1 * 2 ^ nat (e1 - e) + m2 * 2 ^ nat (e2 - e)"
  have v: "valof m e = valof m1 e1 + valof m2 e2"
    unfolding m_def by (rule valof_align [OF e_def])
  have "\<bar>valof m e\<bar> \<le> 2 ^ 100" using assms v by simp
  from round64_error [OF this] obtain m' e' where
    r: "round64 m e = Fin m' e'"
    and b: "\<bar>valof m' e' - valof m e\<bar> \<le> \<bar>valof m e\<bar> / 2 ^ 53 + 2 powr (- 1075)"
    by blast
  have "js_add (Fin m1 e1) (Fin m2 e2) = Fin m' e'"
    using r by (simp add: Let_def e_def m_def)
  moreover have "\<bar>valof m' e' - (valof m1 e1 + valof m2 e2)\<bar>
             \<le> \<bar>valof m1 e1 + valof m2 e2\<bar> / 2 ^ 53 + 1 / 2 ^ 53"
    using b eta_small unfolding v by linarith
  ultimately show ?thesis by blast
qed

lemma valof_neg: "valof (- m) e = - valof m e"
  by (simp add: valof_def)

lemma js_sub_error:
  assumes "\<bar>valof m1 e1 - valof m2 e2\<bar> \<le> 10 ^ 14"
  shows "\<exists>m e. js_sub (Fin m1 e1) (Fin m2 e2) = Fin m e \<and>
           \<bar>valof m e - (valof m1 e1 - valof m2 e2)\<bar>
             \<le> \<bar>valof m1 e1 - valof m2 e2\<bar> / 2 ^ 53 + 1 / 2 ^ 53"
  using js_add_error [of m1 e1 "- m2" e2] assms by (simp add: js_sub_def valof_neg)

lemma round64_not_NaN: "round64 m e \<noteq> NaN"
  by (simp add: round64_def Let_def infinity_of_def)

lemma js_add_not_NaN: "a \<noteq> NaN \<Longrightarrow> js_add a (Fin m e) \<noteq> NaN"
  by (cases a) (simp_all add: Let_def round64_not_NaN)

lemma js_abs_not_NaN: "a \<noteq> NaN \<Longrightarrow> js_abs a \<noteq> NaN \<and> js_abs a \<noteq> NInf"
  by (cases a) simp_all

lemma js_le_iff_not_gt: "a \<noteq> NaN \<Longrightarrow> a \<noteq> NInf \<Longrightarrow> js_le a (Fin m e) = (\<not> js_gt a (Fin m e))"
  by (cases a) (auto simp: Let_def)

lemma moderateD:
  assumes "moderate x"
  obtains m e where "x = Fin m e" and "\<bar>valof m e\<bar> \<le> 3 * 10 ^ 13"
proof (cases x)
  case (Fin m e)
  have "valof 30000000000000 0 = 3 * 10 ^ 13" by (simp add: valof_def)
  then have "\<bar>valof m e\<bar> \<le> 3 * 10 ^ 13"
    using assms Fin js_le_valof [of "\<bar>m\<bar>" e 30000000000000 0]
    by (simp add: moderate_def amount_limit_def valof_abs del: js_le.simps)
  then show ?thesis using Fin that by blast
qed (use assms in \<open>simp_all add: moderate_def amount_limit_def\<close>)

lemma lit_0_01_value: "1 / 100 \<le> valof 5764607523034235 (- 59)"
  by (simp add: valof_def powr_minus_divide)

lemma err_step:
  fixes z t B c :: real
  assumes "\<bar>z - t\<bar> \<le> \<bar>t\<bar> / 2 ^ 53 + 1 / 2 ^ 53" and "\<bar>t\<bar> \<le> B"
    and "B / 2 ^ 53 + 1 / 2 ^ 53 \<le> c"
  shows "\<bar>z - t\<bar> \<le> c"
proof -
  have "\<bar>t\<bar> / 2 ^ 53 \<le> B / 2 ^ 53" using assms(2) by (simp add: divide_right_mono)
  then show ?thesis using assms(1,3) by linarith
qed

lemma recomputed_coherent:
  assumes "\<bar>valof mg eg\<bar> \<le> 3 * 10 ^ 13" and "\<bar>valof mv ev\<bar> \<le> 3 * 10 ^ 13"
  shows "js_le (js_abs (js_sub (js_add (js_sub (Fin mg eg) (Fin mv ev)) (Fin mv ev)) (Fin mg eg)))
           lit_0_01"
proof -
  let ?x = "valof mg eg" and ?y = "valof mv ev"
  have g: "\<bar>?x\<bar> \<le> 30000000000000" and v: "\<bar>?y\<bar> \<le> 30000000000000"
    using assms by simp_all
  have xy: "\<bar>?x - ?y\<bar> \<le> 60000000000000" using g v by linarith
  then have "\<bar>?x - ?y\<bar> \<le> 10 ^ 14" by simp
  from js_sub_error [OF this] obtain m1 e1 where
    s1: "js_sub (Fin mg eg) (Fin mv ev) = Fin m1 e1"
    and b1: "\<bar>valof m1 e1 - (?x - ?y)\<bar> \<le> \<bar>?x - ?y\<bar> / 2 ^ 53 + 1 / 2 ^ 53"
    by blast
  have d1: "\<bar>valof m1 e1 - (?x - ?y)\<bar> \<le> 6662 / 1000000"
    by (rule err_step [OF b1 xy]) simp
  have t1: "\<bar>valof m1 e1 + ?y\<bar> \<le> 30000000000001" using d1 g by linarith
  then have "\<bar>valof m1 e1 + ?y\<bar> \<le> 10 ^ 14" by simp
  from js_add_error [OF this] obtain m2 e2 where
    s2: "js_add (Fin m1 e1) (Fin mv ev) = Fin m2 e2"
    and b2: "\<bar>valof m2 e2 - (valof m1 e1 + ?y)\<bar> \<le> \<bar>valof m1 e1 + ?y\<bar> / 2 ^ 53 + 1 / 2 ^ 53"
    by blast
  have d2: "\<bar>valof m2 e2 - (valof m1 e1 + ?y)\<bar> \<le> 3331 / 1000000"
    by (rule err_step [OF b2 t1]) simp
  have t: "\<bar>valof m2 e2 - ?x\<bar> \<le> 9993 / 1000000" using d1 d2 by linarith
  then have "\<bar>valof m2 e2 - ?x\<bar> \<le> 10 ^ 14" by simp
  from js_sub_error [OF this] obtain m3 e3 where
    s3: "js_sub (Fin m2 e2) (Fin mg eg) = Fin m3 e3"
    and b3: "\<bar>valof m3 e3 - (valof m2 e2 - ?x)\<bar> \<le> \<bar>valof m2 e2 - ?x\<bar> / 2 ^ 53 + 1 / 2 ^ 53"
    by blast
  have "\<bar>valof m3 e3 - (valof m2 e2 - ?x)\<bar> \<le> 1 / 1000000"
    by (rule err_step [OF b3 t]) simp
  then have "\<bar>valof m3 e3\<bar> \<le> 1 / 100" using t by linarith
  then have "valof \<bar>m3\<bar> e3 \<le> valof 5764607523034235 (- 59)"
    using lit_0_01_value by (simp add: valof_abs [symmetric])
  then show ?thesis
    unfolding s1 s2 s3 lit_0_01_def js_abs.simps by (simp only: js_le_valof)
qed

lemma call_model_success:
  "body (fst (call_model w)) = SuccessBody d \<Longrightarrow>
   \<exists>a. upstream w = Parsed a \<and> postprocess (today w) a = Inr d"
  by (auto simp: call_model_def failure_def split: Upstream.splits sum.splits)

lemma validate_file_body:
  "validate_file entry = Some r \<Longrightarrow> status r = 400 \<and> (\<exists>m. body r = ErrorBody m)"
  by (cases entry) (auto split: if_splits)

lemma analyze_receipt_success:
  assumes "body (fst (analyze_receipt w req)) = SuccessBody d"
  shows "\<exists>a. upstream w = Parsed a \<and> postprocess (today w) a = Inr d"
proof -
  have "fst (analyze_receipt w req) = fst (call_model w)"
    using assms validate_file_body
    by (fastforce simp: analyze_receipt_def failure_def
        split: if_splits option.splits sum.splits)
  then show ?thesis using assms call_model_success by simp
qed

subsection \<open>The amounts\<close>

lemma fix_vendor_amounts:
  "fix_vendor a = Inr b \<Longrightarrow>
   amount_net b = amount_net a \<and> tax_vat b = tax_vat a \<and> amount_gross b = amount_gross a"
  by (auto simp: fix_vendor_def split: option.splits bool.splits jsvalue.splits)

lemma fix_currency_fields:
  "fix_currency a = Inr b \<Longrightarrow>
   amount_net b = amount_net a \<and> tax_vat b = tax_vat a \<and> amount_gross b = amount_gross a \<and>
   vendor b = vendor a"
  by (auto simp: fix_currency_def split: option.splits bool.splits)

lemma fix_date_fields:
  "amount_net (fix_date t a) = amount_net a \<and> tax_vat (fix_date t a) = tax_vat a \<and>
   amount_gross (fix_date t a) = amount_gross a \<and> vendor (fix_date t a) = vendor a"
  by (simp add: fix_date_def)

lemma postprocess_amounts:
  assumes "postprocess t a = Inr d"
  shows "amount_net d = amount_net (fix_amounts a) \<and> tax_vat d = tax_vat (fix_amounts a) \<and>
         amount_gross d = amount_gross (fix_amounts a)"
proof -
  obtain b where b: "fix_vendor (fix_amounts a) = Inr b" and d: "fix_currency (fix_date t b) = Inr d"
    using assms by (auto simp: postprocess_def split: sum.splits)
  show ?thesis
    using fix_vendor_amounts [OF b] fix_currency_fields [OF d] fix_date_fields [of t b] by simp
qed

lemma coherent_cong:
  "amount_net d = amount_net b \<Longrightarrow> tax_vat d = tax_vat b \<Longrightarrow> amount_gross d = amount_gross b \<Longrightarrow>
   coherent d = coherent b"
  by (simp add: coherent_def difference_of_def)

lemma fix_amounts_coherent:
  assumes "moderate (amount_gross a)" "moderate (tax_vat a)" "amount_net a \<noteq> NaN"
  shows "coherent (fix_amounts a)"
proof -
  obtain mg eg where g: "amount_gross a = Fin mg eg" and gb: "\<bar>valof mg eg\<bar> \<le> 3 * 10 ^ 13"
    using assms(1) by (rule moderateD)
  obtain mv ev where v: "tax_vat a = Fin mv ev" and vb: "\<bar>valof mv ev\<bar> \<le> 3 * 10 ^ 13"
    using assms(2) by (rule moderateD)
  show ?thesis
  proof (cases "js_gt (difference_of a) lit_0_01")
    case True
    then show ?thesis
      using recomputed_coherent [OF gb vb]
      by (simp add: fix_amounts_def coherent_def difference_of_def g v)
  next
    case False
    have "js_add (amount_net a) (Fin mv ev) \<noteq> NaN" using assms(3) by (rule js_add_not_NaN)
    then have "js_sub (js_add (amount_net a) (Fin mv ev)) (Fin mg eg) \<noteq> NaN"
      unfolding js_sub_def js_neg.simps by (rule js_add_not_NaN)
    then have "difference_of a \<noteq> NaN \<and> difference_of a \<noteq> NInf"
      unfolding difference_of_def g v by (rule js_abs_not_NaN)
    then have "js_le (difference_of a) lit_0_01"
      using False unfolding lit_0_01_def by (simp add: js_le_iff_not_gt del: js_le.simps js_gt.simps)
    then show ?thesis using False by (simp add: fix_amounts_def coherent_def)
  qed
qed

text \<open>
  Claim C1, as amended. When the function answers with success, the model's gross
  amount and VAT read as numbers of magnitude at most \<open>3 * 10^13\<close> and its net amount
  does not read as \<^verbatim>\<open>NaN\<close>, the returned amounts satisfy \<open>|net + VAT - gross| \<le> 0.01\<close>, the
  difference being computed in doubles as the function computes it; gross and VAT
  are returned as the model gave them, and the net amount is \<open>gross - VAT\<close> (rounded
  to a double) when the model's values diverge by more than 0.01 in that arithmetic
  and the model's net amount otherwise.
\<close>

theorem coherent_after_postprocess:
  assumes "body (fst (analyze_receipt w req)) = SuccessBody d"
      and "upstream w = Parsed a"
      and "moderate (amount_gross a)" and "moderate (tax_vat a)" and "amount_net a \<noteq> NaN"
  shows "coherent d \<and> amount_gross d = amount_gross a \<and> tax_vat d = tax_vat a \<and>
         amount_net d = (if js_gt (difference_of a) lit_0_01
                         then js_sub (amount_gross a) (tax_vat a) else amount_net a)"
proof -
  have pp: "postprocess (today w) a = Inr d"
    using analyze_receipt_success [OF assms(1)] assms(2) by simp
  note am = postprocess_amounts [OF pp]
  have "coherent d = coherent (fix_amounts a)"
    using am by (intro coherent_cong) simp_all
  then have c: "coherent d"
    using fix_amounts_coherent [OF assms(3) assms(4) assms(5)] by simp
  show ?thesis using c am by (simp add: fix_amounts_def)
qed

lemma hundred_not_gt:
  "\<not> js_gt (js_abs (js_sub (js_add (Fin 100 0) (Fin 0 0)) (Fin 100 0))) lit_0_01"
  by code_simp

lemma hundred_kept:
  "amount_net a = Fin 100 0 \<Longrightarrow> tax_vat a = Fin 0 0 \<Longrightarrow> amount_gross a = Fin 100 0 \<Longrightarrow>
   fix_amounts a = a"
  using hundred_not_gt by (simp add: fix_amounts_def difference_of_def)

lemma sample_unchanged:
  "postprocess t sample_output = Inr sample_output"
proof -
  have "fix_amounts sample_output = sample_output"
    by (rule hundred_kept) (simp_all add: sample_output_def)
  then show ?thesis
    by (simp add: postprocess_def fix_vendor_def
      fix_date_def fix_currency_def sample_output_def ascii_def js_trim_def is_space_def
      clean_vendor_def vendor_kept_def is_word_char_def is_digit_def)
qed

subsection \<open>Runs on the example inputs; file validation\<close>

lemma post_jpeg_reaches_model:
  "analyze_receipt (world_of u) (post_of receipt_jpeg) = call_model (world_of u)"
  by (simp add: analyze_receipt_def world_of_def post_of_def receipt_jpeg_def
      allowedTypes_def maxSize_def)

lemma postprocess_fields_only:
  "postprocess t (amounts n v g) = Inr (fix_amounts (amounts n v g))"
  by (simp add: postprocess_def fix_vendor_def fix_amounts_def amounts_def
      fix_date_def fix_currency_def sample_output_def ascii_def js_trim_def is_space_def
      clean_vendor_def vendor_kept_def is_word_char_def is_digit_def)

lemma run_on_amounts:
  "body (fst (analyze_receipt (world_of (Parsed (amounts n v g))) (post_of receipt_jpeg)))
     = SuccessBody (fix_amounts (amounts n v g))"
  unfolding post_jpeg_reaches_model
  by (simp add: call_model_def world_of_def postprocess_fields_only)

lemma difference_of_amounts:
  "difference_of (amounts n v g) = js_abs (js_sub (js_add n v) g)"
  by (simp add: difference_of_def amounts_def)

lemma fix_amounts_amounts:
  "fix_amounts (amounts n v g) =
     (if js_gt (js_abs (js_sub (js_add n v) g)) lit_0_01 then amounts (js_sub g v) v g
      else amounts n v g)"
  by (simp add: fix_amounts_def difference_of_amounts) (simp add: amounts_def)

lemma cents_sum: "js_add (Fin 4357232639480955 (- 49)) (Fin 11 0) = Fin 5274841063557694 (- 48)"
  by code_simp

lemma cents_difference:
  "js_abs (js_sub (Fin 5274841063557694 (- 48)) (Fin 5272026313790587 (- 48)))
     = Fin 2814749767107 (- 48)"
  by code_simp

lemma cents_net: "js_sub (Fin 5272026313790587 (- 48)) (Fin 11 0) = Fin 2175801569973371 (- 48)"
  by code_simp

lemma cents_gt: "js_gt (Fin 2814749767107 (- 48)) lit_0_01"
  by code_simp

lemma cents_fixed:
  "fix_amounts cents_output
     = amounts (Fin 2175801569973371 (- 48)) (Fin 11 0) (Fin 5272026313790587 (- 48))"
  unfolding cents_output_def fix_amounts_amounts cents_sum cents_difference cents_net
  using cents_gt by simp

text \<open>
  The theorem at a model output of net 7.74, VAT 11.00, gross 18.73. In doubles
  the difference is \<open>0.010000000000001563\<close>, above 0.01: the net amount comes back
  as \<open>18.73 - 11\<close>, the double \<open>2175801569973371 * 2^(-48)\<close> that prints as 7.73.
\<close>

theorem coherent_after_postprocess_witness:
  "body (fst (analyze_receipt (world_of (Parsed cents_output)) (post_of receipt_jpeg)))
     = SuccessBody (amounts (Fin 2175801569973371 (- 48)) (Fin 11 0) (Fin 5272026313790587 (- 48))) \<and>
   moderate (Fin 5272026313790587 (- 48)) \<and> moderate (Fin 11 0) \<and>
   Fin 4357232639480955 (- 49) \<noteq> NaN \<and>
   difference_of cents_output = Fin 2814749767107 (- 48) \<and>
   js_gt (difference_of cents_output) lit_0_01 \<and>
   coherent (amounts (Fin 2175801569973371 (- 48)) (Fin 11 0) (Fin 5272026313790587 (- 48))) \<and>
   amount_net (amounts (Fin 2175801569973371 (- 48)) (Fin 11 0) (Fin 5272026313790587 (- 48)))
     = js_sub (amount_gross cents_output) (tax_vat cents_output)"
proof -
  let ?d = "amounts (Fin 2175801569973371 (- 48)) (Fin 11 0) (Fin 5272026313790587 (- 48))"
  have run: "body (fst (analyze_receipt (world_of (Parsed cents_output)) (post_of receipt_jpeg)))
               = SuccessBody ?d"
    using run_on_amounts [of "Fin 4357232639480955 (- 49)" "Fin 11 0" "Fin 5272026313790587 (- 48)"]
    by (simp only: cents_fixed cents_output_def [symmetric])
  have up: "upstream (world_of (Parsed cents_output)) = Parsed cents_output"
    by (simp add: world_of_def)
  have mg: "moderate (Fin 5272026313790587 (- 48))" unfolding moderate_def amount_limit_def by code_simp
  have mv: "moderate (Fin 11 0)" unfolding moderate_def amount_limit_def by code_simp
  have fn: "Fin 4357232639480955 (- 49) \<noteq> NaN" by simp
  have sel: "amount_gross cents_output = Fin 5272026313790587 (- 48)"
    "tax_vat cents_output = Fin 11 0" "amount_net cents_output = Fin 4357232639480955 (- 49)"
    by (simp_all add: cents_output_def amounts_def)
  have df: "difference_of cents_output = Fin 2814749767107 (- 48)"
    unfolding cents_output_def difference_of_amounts cents_sum cents_difference ..
  have gt: "js_gt (difference_of cents_output) lit_0_01"
    unfolding df by (rule cents_gt)
  note th = coherent_after_postprocess [OF run up, unfolded sel, OF mg mv fn]
  have c: "coherent ?d" using th by (rule conjunct1)
  have e: "amount_net ?d = js_sub (amount_gross cents_output) (tax_vat cents_output)"
    using th gt unfolding sel by (simp del: AnalysisResult.simps)
  show ?thesis using run mg mv fn df gt c e by (intro conjI)
qed

lemma huge_net: "js_sub (Fin 1 0) (Fin 152587890625 16) = Fin (- 5000000000000000) 1"
  by code_simp

lemma huge_difference:
  "js_abs (js_sub (js_add (Fin 0 0) (Fin 152587890625 16)) (Fin 1 0)) = Fin 5000000000000000 1"
  by code_simp

lemma huge_gt: "js_gt (Fin 5000000000000000 1) lit_0_01"
  by code_simp

lemma huge_after:
  "js_abs (js_sub (js_add (Fin (- 5000000000000000) 1) (Fin 152587890625 16)) (Fin 1 0)) = Fin 1 0"
  by code_simp

lemma one_not_le: "\<not> js_le (Fin 1 0) lit_0_01"
  by code_simp

lemma tie_difference:
  "js_abs (js_sub (js_add (Fin 0 0) (Fin (- 1) 46)) (Fin 4503599627370497 (- 6)))
     = Fin 4503599627370496 (- 5)"
  by code_simp

lemma tie_gt: "js_gt (Fin 4503599627370496 (- 5)) lit_0_01"
  by code_simp

lemma tie_net:
  "js_sub (Fin 4503599627370497 (- 6)) (Fin (- 1) 46) = Fin 4503599627370496 (- 5)"
  by code_simp

lemma tie_after:
  "js_abs (js_sub (js_add (Fin 4503599627370496 (- 5)) (Fin (- 1) 46))
             (Fin 4503599627370497 (- 6))) = Fin 1 (- 6)"
  by code_simp

lemma tie_not_le: "\<not> js_le (Fin 1 (- 6)) lit_0_01"
  by code_simp

lemma tie_magnitudes:
  "js_le (js_abs (Fin 4503599627370497 (- 6))) (Fin 71000000000000 0) \<and>
   js_le (js_abs (Fin (- 1) 46)) (Fin 71000000000000 0)"
  by code_simp

lemma absorbed_difference:
  "js_abs (js_sub (js_add (Fin 1 43) (Fin 21 (- 11))) (Fin 1 43)) = Fin 5 (- 9)"
  by code_simp

lemma absorbed_not_gt: "\<not> js_gt (Fin 5 (- 9)) lit_0_01"
  by code_simp

lemma absorbed_exact:
  "js_abs (exact_add (exact_add (Fin 1 43) (Fin 21 (- 11))) (js_neg (Fin 1 43))) = Fin 21 (- 11)"
  by code_simp

lemma absorbed_exact_gt: "\<not> js_le (Fin 21 (- 11)) lit_0_01"
  by code_simp

text \<open>
  Claim C1 as stated asks only for a finite positive gross amount and speaks of the
  difference of the returned amounts. Four model outputs, each answered with
  success:

  \<^item> gross 100, net 100 and a VAT field that \<^verbatim>\<open>Number\<close> reads as \<^verbatim>\<open>NaN\<close>: the
    difference is \<^verbatim>\<open>NaN\<close>, the test \<^verbatim>\<open>difference > 0.01\<close> is false, nothing is
    recomputed, and the returned amounts are not within 0.01;
  \<^item> gross 1, VAT \<open>10^16\<close>, net 0, all finite: the net amount is recomputed as
    \<open>1 - 10^16\<close>, which rounds to \<open>- 10^16\<close>, and the difference of the returned
    amounts is 1;
  \<^item> gross \<open>2^46 + 2^(-6)\<close>, VAT \<open>- 2^46\<close>, net 0, of magnitude below
    \<open>7.1 * 10^13\<close>: the net amount is recomputed as \<open>2^47 + 2^(-6)\<close>, a tie that
    rounds to \<open>2^47\<close> (written \<open>2^52 * 2^(-5)\<close>), and the difference of the returned amounts is \<open>2^(-6)\<close>,
    which is \<open>0.015625\<close>;
  \<^item> gross and net \<open>2^43\<close>, VAT \<open>0.01025390625\<close>: in doubles \<open>net + VAT\<close> rounds to
    \<open>2^43 + 0.009765625\<close>, the computed difference is not above 0.01 and nothing is
    recomputed, while the difference of the returned amounts without rounding is
    \<open>0.01025390625\<close>, above the double 0.01 (itself above one hundredth).
\<close>

theorem coherence_counterexample:
  "body (fst (analyze_receipt (world_of (Parsed unreadable_vat_output)) (post_of receipt_jpeg)))
     = SuccessBody unreadable_vat_output \<and>
   amount_gross unreadable_vat_output = Fin 100 0 \<and>
   \<not> coherent unreadable_vat_output \<and>
   body (fst (analyze_receipt (world_of (Parsed huge_vat_output)) (post_of receipt_jpeg)))
     = SuccessBody (amounts (Fin (- 5000000000000000) 1) (Fin 152587890625 16) (Fin 1 0)) \<and>
   difference_of (amounts (Fin (- 5000000000000000) 1) (Fin 152587890625 16) (Fin 1 0)) = Fin 1 0 \<and>
   \<not> coherent (amounts (Fin (- 5000000000000000) 1) (Fin 152587890625 16) (Fin 1 0)) \<and>
   body (fst (analyze_receipt (world_of (Parsed tie_output)) (post_of receipt_jpeg)))
     = SuccessBody (amounts (Fin 4503599627370496 (- 5)) (Fin (- 1) 46) (Fin 4503599627370497 (- 6))) \<and>
   js_le (js_abs (Fin 4503599627370497 (- 6))) (Fin 71000000000000 0) \<and>
   js_le (js_abs (Fin (- 1) 46)) (Fin 71000000000000 0) \<and>
   difference_of (amounts (Fin 4503599627370496 (- 5)) (Fin (- 1) 46) (Fin 4503599627370497 (- 6))) = Fin 1 (- 6) \<and>
   \<not> coherent (amounts (Fin 4503599627370496 (- 5)) (Fin (- 1) 46) (Fin 4503599627370497 (- 6))) \<and>
   body (fst (analyze_receipt (world_of (Parsed absorbed_vat_output)) (post_of receipt_jpeg)))
     = SuccessBody absorbed_vat_output \<and>
   moderate (amount_gross absorbed_vat_output) \<and> moderate (tax_vat absorbed_vat_output) \<and>
   moderate (amount_net absorbed_vat_output) \<and>
   exact_difference absorbed_vat_output = Fin 21 (- 11) \<and>
   \<not> js_le (exact_difference absorbed_vat_output) lit_0_01"
proof -
  have fx: "fix_amounts unreadable_vat_output = unreadable_vat_output"
    unfolding unreadable_vat_output_def fix_amounts_amounts by (simp add: js_sub_def)
  have run1: "body (fst (analyze_receipt (world_of (Parsed unreadable_vat_output))
                        (post_of receipt_jpeg))) = SuccessBody unreadable_vat_output"
    using run_on_amounts [of "Fin 100 0" NaN "Fin 100 0"]
    by (simp only: fx unreadable_vat_output_def [symmetric])
  have nc1: "\<not> coherent unreadable_vat_output"
    by (simp add: coherent_def unreadable_vat_output_def difference_of_amounts js_sub_def)
  have g1: "amount_gross unreadable_vat_output = Fin 100 0"
    by (simp add: unreadable_vat_output_def amounts_def sample_output_def)
  have fx2: "fix_amounts huge_vat_output
               = amounts (Fin (- 5000000000000000) 1) (Fin 152587890625 16) (Fin 1 0)"
    unfolding huge_vat_output_def fix_amounts_amounts huge_difference huge_net
    using huge_gt by simp
  have run2: "body (fst (analyze_receipt (world_of (Parsed huge_vat_output)) (post_of receipt_jpeg)))
     = SuccessBody (amounts (Fin (- 5000000000000000) 1) (Fin 152587890625 16) (Fin 1 0))"
    using run_on_amounts [of "Fin 0 0" "Fin 152587890625 16" "Fin 1 0"]
    by (simp only: fx2 huge_vat_output_def [symmetric])
  have d2: "difference_of (amounts (Fin (- 5000000000000000) 1) (Fin 152587890625 16) (Fin 1 0))
              = Fin 1 0"
    unfolding difference_of_amounts by (rule huge_after)
  have nc2: "\<not> coherent (amounts (Fin (- 5000000000000000) 1) (Fin 152587890625 16) (Fin 1 0))"
    unfolding coherent_def d2 by (rule one_not_le)
  have fx4: "fix_amounts tie_output
               = amounts (Fin 4503599627370496 (- 5)) (Fin (- 1) 46) (Fin 4503599627370497 (- 6))"
    unfolding tie_output_def fix_amounts_amounts tie_difference tie_net
    using tie_gt by simp
  have run4: "body (fst (analyze_receipt (world_of (Parsed tie_output)) (post_of receipt_jpeg)))
     = SuccessBody (amounts (Fin 4503599627370496 (- 5)) (Fin (- 1) 46) (Fin 4503599627370497 (- 6)))"
    using run_on_amounts [of "Fin 0 0" "Fin (- 1) 46" "Fin 4503599627370497 (- 6)"]
    by (simp only: fx4 tie_output_def [symmetric])
  have d4: "difference_of (amounts (Fin 4503599627370496 (- 5)) (Fin (- 1) 46) (Fin 4503599627370497 (- 6)))
              = Fin 1 (- 6)"
    unfolding difference_of_amounts by (rule tie_after)
  have nc4: "\<not> coherent (amounts (Fin 4503599627370496 (- 5)) (Fin (- 1) 46) (Fin 4503599627370497 (- 6)))"
    unfolding coherent_def d4 by (rule tie_not_le)
  note tm1 = tie_magnitudes [THEN conjunct1] and tm2 = tie_magnitudes [THEN conjunct2]
  have fx3: "fix_amounts absorbed_vat_output = absorbed_vat_output"
    unfolding absorbed_vat_output_def fix_amounts_amounts absorbed_difference
    using absorbed_not_gt by simp
  have run3: "body (fst (analyze_receipt (world_of (Parsed absorbed_vat_output))
                        (post_of receipt_jpeg))) = SuccessBody absorbed_vat_output"
    using run_on_amounts [of "Fin 1 43" "Fin 21 (- 11)" "Fin 1 43"]
    by (simp only: fx3 absorbed_vat_output_def [symmetric])
  have sel: "amount_gross absorbed_vat_output = Fin 1 43"
    "tax_vat absorbed_vat_output = Fin 21 (- 11)" "amount_net absorbed_vat_output = Fin 1 43"
    by (simp_all add: absorbed_vat_output_def amounts_def)
  have m1: "moderate (Fin 1 43)" unfolding moderate_def amount_limit_def by code_simp
  have m2: "moderate (Fin 21 (- 11))" unfolding moderate_def amount_limit_def by code_simp
  have ed: "exact_difference absorbed_vat_output = Fin 21 (- 11)"
    unfolding exact_difference_def sel by (rule absorbed_exact)
  have ng: "\<not> js_le (exact_difference absorbed_vat_output) lit_0_01"
    unfolding ed by (rule absorbed_exact_gt)
  show ?thesis
    unfolding sel using run1 g1 nc1 run2 d2 nc2 run4 tm1 tm2 d4 nc4 run3 m1 m2 ed ng
    by (intro conjI)
qed

text \<open>
  Claim C4, as amended. For a request that is not an \<^verbatim>\<open>OPTIONS\<close> preflight, with
  the API key configured and a file in the form: a type outside the four allowed
  ones or a size above \<open>10 * 1024 * 1024\<close> bytes gives status 400 with an error body
  and no call to the generative model; an allowed type with a size within the limit
  passes the validation, and the response is not the 400 of the validation.
\<close>

theorem file_validation:
  assumes "req_method req \<noteq> ''OPTIONS''"
      and "GEMINI_API_KEY w = Some k" and "k \<noteq> []"
      and "req_form req = Inr (FileEntry f)"
  shows "(file_type f \<notin> set allowedTypes \<or> file_size f > maxSize \<longrightarrow>
            status (fst (analyze_receipt w req)) = 400 \<and>
            (\<exists>m. body (fst (analyze_receipt w req)) = ErrorBody m) \<and>
            snd (analyze_receipt w req) = 0) \<and>
         (file_type f \<in> set allowedTypes \<and> file_size f \<le> maxSize \<longrightarrow>
            validate_file (FileEntry f) = None \<and>
            status (fst (analyze_receipt w req)) \<noteq> 400)"
proof (intro conjI impI)
  assume bad: "file_type f \<notin> set allowedTypes \<or> file_size f > maxSize"
  then obtain r where r: "validate_file (FileEntry f) = Some r"
    by (cases "file_type f \<in> set allowedTypes") auto
  then have ar: "analyze_receipt w req = (r, 0)"
    using assms by (simp add: analyze_receipt_def)
  show "status (fst (analyze_receipt w req)) = 400" using ar validate_file_body [OF r] by simp
  show "\<exists>m. body (fst (analyze_receipt w req)) = ErrorBody m"
    using ar validate_file_body [OF r] by simp
  show "snd (analyze_receipt w req) = 0" using ar by simp
next
  assume ok: "file_type f \<in> set allowedTypes \<and> file_size f \<le> maxSize"
  then show v: "validate_file (FileEntry f) = None" by simp
  have "analyze_receipt w req =
          (case encoding_throws w of Some m \<Rightarrow> (failure (MsgThrown m), 0) | None \<Rightarrow> call_model w)"
    using assms v by (simp add: analyze_receipt_def)
  then show "status (fst (analyze_receipt w req)) \<noteq> 400"
    by (auto simp: call_model_def failure_def split: option.splits Upstream.splits sum.splits)
qed

text \<open>
  The theorem at a plain-text file (rejected, no call) and at a small JPEG (passes;
  here the model gives no text, so the answer is the 500 failure).
\<close>

theorem file_validation_witness:
  "status (fst (analyze_receipt (world_of NoGeneratedText) (post_of notes_txt))) = 400 \<and>
   body (fst (analyze_receipt (world_of NoGeneratedText) (post_of notes_txt))) = ErrorBody MsgBadType \<and>
   snd (analyze_receipt (world_of NoGeneratedText) (post_of notes_txt)) = 0 \<and>
   validate_file (FileEntry receipt_jpeg) = None \<and>
   status (fst (analyze_receipt (world_of NoGeneratedText) (post_of receipt_jpeg))) = 500"
proof -
  have m: "req_method (post_of notes_txt) \<noteq> ''OPTIONS''" "req_method (post_of receipt_jpeg) \<noteq> ''OPTIONS''"
    by (simp_all add: post_of_def)
  have k: "GEMINI_API_KEY (world_of NoGeneratedText) = Some ''key''" "''key'' \<noteq> []"
    by (simp_all add: world_of_def)
  have f: "req_form (post_of notes_txt) = Inr (FileEntry notes_txt)"
    "req_form (post_of receipt_jpeg) = Inr (FileEntry receipt_jpeg)"
    by (simp_all add: post_of_def)
  have bad: "file_type notes_txt \<notin> set allowedTypes"
    by (simp add: notes_txt_def allowedTypes_def)
  have good: "file_type receipt_jpeg \<in> set allowedTypes \<and> file_size receipt_jpeg \<le> maxSize"
    by (simp add: receipt_jpeg_def allowedTypes_def maxSize_def)
  have b: "body (fst (analyze_receipt (world_of NoGeneratedText) (post_of notes_txt))) = ErrorBody MsgBadType"
    by (simp add: analyze_receipt_def world_of_def post_of_def notes_txt_def allowedTypes_def)
  have s: "status (fst (analyze_receipt (world_of NoGeneratedText) (post_of receipt_jpeg))) = 500"
    unfolding post_jpeg_reaches_model by (simp add: call_model_def world_of_def failure_def)
  show ?thesis
    using file_validation [OF m(1) k f(1)] file_validation [OF m(2) k f(2)] bad good b s
    by simp
qed

text \<open>
  Claim C4 as stated holds of every request. The API key is checked before the file
  is looked at: without the key, the request carrying the plain-text file is
  answered with status 500.
\<close>

theorem file_validation_counterexample:
  "file_type notes_txt \<notin> set allowedTypes \<and>
   fst (analyze_receipt ((world_of NoGeneratedText)\<lparr>GEMINI_API_KEY := None\<rparr>) (post_of notes_txt))
     = \<lparr>status = 500, body = ErrorBody MsgNoApiKey\<rparr>"
  by (simp add: analyze_receipt_def world_of_def post_of_def notes_txt_def allowedTypes_def)

subsection \<open>Vendor clean-up and upstream failures\<close>

lemma range_9_13:
  "(9 \<le> c \<and> c \<le> 13) = (c = 9 \<or> c = 10 \<or> c = 11 \<or> c = 12 \<or> c = 13)" for c :: nat
  by arith

lemma range_8192_8202:
  "(8192 \<le> c \<and> c \<le> 8202) =
   (c = 8192 \<or> c = 8193 \<or> c = 8194 \<or> c = 8195 \<or> c = 8196 \<or> c = 8197 \<or> c = 8198 \<or>
    c = 8199 \<or> c = 8200 \<or> c = 8201 \<or> c = 8202)" for c :: nat
  by arith

lemma white_space_units_iff: "(c \<in> set white_space_units) = is_space c"
  unfolding white_space_units_def is_space_def range_9_13 range_8192_8202
  by (simp del: One_nat_def)

lemma strip_left_eq: "strip_left s = dropWhile is_space s"
  by (induction s) (simp_all add: white_space_units_iff)

lemma strip_both_eq: "strip_both s = js_trim s"
  by (simp add: strip_both_def js_trim_def strip_left_eq)

lemma allowed_in_vendor_iff: "allowed_in_vendor c = vendor_kept c"
  unfolding allowed_in_vendor_def vendor_kept_def is_word_char_def is_digit_def
    letter_units_def digit_units_def white_space_units_iff set_append set_upt
  by auto

lemma remove_disallowed_eq: "remove_disallowed s = filter vendor_kept s"
  by (induction s) (simp_all add: allowed_in_vendor_iff)

lemma vendor_as_amended_Str:
  "vendor_as_amended (Str s) =
     clean_vendor (if s = [] \<or> js_trim s = [] then unidentified_vendor else s)"
  by (auto simp: vendor_as_amended_def clean_vendor_def strip_both_eq remove_disallowed_eq
      unidentified_vendor_def js_trim_def)

lemma vendor_as_amended_Falsy:
  "vendor_as_amended FalsyOther = clean_vendor unidentified_vendor"
  by (simp add: vendor_as_amended_def clean_vendor_def strip_both_eq remove_disallowed_eq
      unidentified_vendor_def)

lemma fix_vendor_result:
  "fix_vendor a = Inr b \<Longrightarrow> vendor b = Str (vendor_as_amended (vendor a))"
  by (cases "vendor a")
    (auto simp: fix_vendor_def vendor_as_amended_Str vendor_as_amended_Falsy
      split: option.splits bool.splits if_splits)

lemma fix_amounts_vendor: "vendor (fix_amounts a) = vendor a"
  by (simp add: fix_amounts_def)

lemma postprocess_vendor:
  assumes "postprocess t a = Inr d"
  shows "vendor d = Str (vendor_as_amended (vendor a))"
proof -
  obtain b where b: "fix_vendor (fix_amounts a) = Inr b" and d: "fix_currency (fix_date t b) = Inr d"
    using assms by (auto simp: postprocess_def split: sum.splits)
  have "vendor d = vendor b"
    using fix_currency_fields [OF d] fix_date_fields [of t b] by simp
  then show ?thesis using fix_vendor_result [OF b] by (simp add: fix_amounts_vendor)
qed

lemma vendor_as_amended_props:
  "length (vendor_as_amended v) \<le> 100 \<and> list_all allowed_in_vendor (vendor_as_amended v)"
proof -
  let ?s = "strip_both (model_vendor_or_placeholder v)"
  have "set (take 100 (filter vendor_kept ?s)) \<subseteq> set (filter vendor_kept ?s)"
    by (rule set_take_subset)
  then show ?thesis
    by (auto simp: vendor_as_amended_def remove_disallowed_eq allowed_in_vendor_iff list_all_iff)
qed

text \<open>
  Claim C5, as amended. In a successful result whose data is an object, the
  vendor is the model's vendor (\<^verbatim>\<open>Comercio no identificado\<close> when that is missing,
  falsy or blank), with the white space at both ends removed, then every code unit
  removed that is not an ASCII letter, a digit, an underscore, white space, a hyphen
  or a dot, cut to the first 100 code units. The right-hand side is
  \<open>vendor_as_amended\<close>, written from these words.
\<close>

theorem vendor_cleaned:
  assumes "body (fst (analyze_receipt w req)) = SuccessBody d"
      and "upstream w = Parsed a"
  shows "vendor d = Str (vendor_as_amended (vendor a)) \<and>
         length (vendor_as_amended (vendor a)) \<le> 100 \<and>
         list_all allowed_in_vendor (vendor_as_amended (vendor a))"
proof -
  have pp: "postprocess (today w) a = Inr d"
    using analyze_receipt_success [OF assms(1)] assms(2) by simp
  show ?thesis using postprocess_vendor [OF pp] vendor_as_amended_props by simp
qed

lemma messy_clean:
  "clean_vendor (ascii ''  Bar-Luna, S.A. #12 '') = ascii ''Bar-Luna S.A. 12''"
  by (simp add: clean_vendor_def ascii_def js_trim_def is_space_def vendor_kept_def
      is_word_char_def is_digit_def)

lemma messy_run:
  "body (fst (analyze_receipt (world_of (Parsed messy_vendor_output)) (post_of receipt_jpeg)))
     = SuccessBody (messy_vendor_output\<lparr>vendor := Str (ascii ''Bar-Luna S.A. 12'')\<rparr>)"
proof -
  have v: "is_blank (Str (ascii ''  Bar-Luna, S.A. #12 '')) = Some False"
    by (simp add: ascii_def js_trim_def is_space_def)
  have fa: "fix_amounts messy_vendor_output = messy_vendor_output"
    by (rule hundred_kept) (simp_all add: messy_vendor_output_def sample_output_def)
  have fv: "fix_vendor messy_vendor_output
              = Inr (messy_vendor_output\<lparr>vendor := Str (ascii ''Bar-Luna S.A. 12'')\<rparr>)"
    using v by (simp add: fix_vendor_def messy_vendor_output_def messy_clean)
  have fd: "fix_date t (messy_vendor_output\<lparr>vendor := x\<rparr>) = messy_vendor_output\<lparr>vendor := x\<rparr>" for t x
    by (simp add: fix_date_def messy_vendor_output_def sample_output_def ascii_def is_digit_def)
  have fc: "fix_currency (messy_vendor_output\<lparr>vendor := x\<rparr>) = Inr (messy_vendor_output\<lparr>vendor := x\<rparr>)" for x
    by (simp add: fix_currency_def messy_vendor_output_def sample_output_def ascii_def
        js_trim_def is_space_def)
  have "postprocess t messy_vendor_output
          = Inr (messy_vendor_output\<lparr>vendor := Str (ascii ''Bar-Luna S.A. 12'')\<rparr>)" for t
    by (simp add: postprocess_def fa fv fd fc)
  then show ?thesis
    unfolding post_jpeg_reaches_model by (simp add: call_model_def world_of_def)
qed

text \<open>
  The theorem at a vendor with surrounding blanks, a comma and a hash sign.
\<close>

theorem vendor_cleaned_witness:
  "body (fst (analyze_receipt (world_of (Parsed messy_vendor_output)) (post_of receipt_jpeg)))
     = SuccessBody (messy_vendor_output\<lparr>vendor := Str (ascii ''Bar-Luna S.A. 12'')\<rparr>) \<and>
   vendor messy_vendor_output = Str (ascii ''  Bar-Luna, S.A. #12 '') \<and>
   vendor_as_amended (vendor messy_vendor_output) = ascii ''Bar-Luna S.A. 12'' \<and>
   length (vendor_as_amended (vendor messy_vendor_output)) \<le> 100 \<and>
   list_all allowed_in_vendor (vendor_as_amended (vendor messy_vendor_output))"
proof -
  have up: "upstream (world_of (Parsed messy_vendor_output)) = Parsed messy_vendor_output"
    by (simp add: world_of_def)
  note th = vendor_cleaned [OF messy_run up]
  have vd: "vendor messy_vendor_output = Str (ascii ''  Bar-Luna, S.A. #12 '')"
    by (simp add: messy_vendor_output_def)
  have c: "vendor_as_amended (vendor messy_vendor_output) = ascii ''Bar-Luna S.A. 12''"
    using th by simp
  have l: "length (vendor_as_amended (vendor messy_vendor_output)) \<le> 100"
    using th by blast
  have k: "list_all allowed_in_vendor (vendor_as_amended (vendor messy_vendor_output))"
    using th by blast
  show ?thesis using messy_run vd c l k by (intro conjI)
qed

text \<open>
  Claim C5 as stated strips every non-alphanumeric character from the vendor of
  every successful result. The vendor \<^verbatim>\<open>A B\<close> is returned as it is, with its space;
  stripped as stated it would be \<^verbatim>\<open>AB\<close>. And when the model's text is the JSON
  array \<^verbatim>\<open>[]\<close>, the function answers with success and the array as data, which
  has no vendor at all.
\<close>

theorem vendor_stripping_counterexample:
  "body (fst (analyze_receipt (world_of (Parsed sample_output)) (post_of receipt_jpeg)))
     = SuccessBody sample_output \<and>
   vendor sample_output = Str (ascii ''A B'') \<and>
   vendor_as_stated (ascii ''A B'') = ascii ''AB'' \<and>
   fst (analyze_receipt (world_of (ParsedArray (ascii ''[]''))) (post_of receipt_jpeg))
     = \<lparr>status = 200, body = SuccessArrayBody (ascii ''[]'')\<rparr>"
proof -
  have run: "body (fst (analyze_receipt (world_of (Parsed sample_output)) (post_of receipt_jpeg)))
     = SuccessBody sample_output"
    unfolding post_jpeg_reaches_model
    by (simp add: call_model_def world_of_def sample_unchanged)
  have v: "vendor sample_output = Str (ascii ''A B'')" by (simp add: sample_output_def)
  have s: "vendor_as_stated (ascii ''A B'') = ascii ''AB''"
    by (simp add: vendor_as_stated_def ascii_def is_alphanumeric_def is_digit_def)
  have arr: "fst (analyze_receipt (world_of (ParsedArray (ascii ''[]''))) (post_of receipt_jpeg))
     = \<lparr>status = 200, body = SuccessArrayBody (ascii ''[]'')\<rparr>"
    unfolding post_jpeg_reaches_model by (simp add: call_model_def world_of_def)
  show ?thesis using run v s arr by (intro conjI)
qed

lemma calls_at_most_one: "snd (analyze_receipt w req) \<le> 1"
  by (auto simp: analyze_receipt_def call_model_def
      split: option.splits sum.splits Upstream.splits)

lemma call_made:
  "snd (analyze_receipt w req) = 1 \<Longrightarrow> analyze_receipt w req = call_model w"
  by (auto simp: analyze_receipt_def split: option.splits sum.splits if_splits)

text \<open>
  Claim C7. A run calls the generative model at most once. When it makes the call
  and the answer is not OK, carries no generated text, or carries text that is not
  JSON, the response is status 500 with the body \<^verbatim>\<open>{success: false, error}\<close>, the
  error being the message of that failure.
\<close>

theorem upstream_failure_no_retry:
  "snd (analyze_receipt w req) \<le> 1 \<and>
   (snd (analyze_receipt w req) = 1 \<longrightarrow>
      (\<forall>st. upstream w = NotOk st \<longrightarrow>
         fst (analyze_receipt w req) = \<lparr>status = 500, body = FailureBody (MsgGeminiStatus st)\<rparr>) \<and>
      (upstream w = NoGeneratedText \<longrightarrow>
         fst (analyze_receipt w req) = \<lparr>status = 500, body = FailureBody MsgNoContent\<rparr>) \<and>
      (upstream w = TextNotJson \<longrightarrow>
         fst (analyze_receipt w req) = \<lparr>status = 500, body = FailureBody MsgParse\<rparr>))"
proof (intro conjI impI allI)
  show "snd (analyze_receipt w req) \<le> 1" by (rule calls_at_most_one)
next
  fix st assume "snd (analyze_receipt w req) = 1" "upstream w = NotOk st"
  then show "fst (analyze_receipt w req) = \<lparr>status = 500, body = FailureBody (MsgGeminiStatus st)\<rparr>"
    using call_made [of w req] by (simp add: call_model_def failure_def)
next
  assume "snd (analyze_receipt w req) = 1" "upstream w = NoGeneratedText"
  then show "fst (analyze_receipt w req) = \<lparr>status = 500, body = FailureBody MsgNoContent\<rparr>"
    using call_made [of w req] by (simp add: call_model_def failure_def)
next
  assume "snd (analyze_receipt w req) = 1" "upstream w = TextNotJson"
  then show "fst (analyze_receipt w req) = \<lparr>status = 500, body = FailureBody MsgParse\<rparr>"
    using call_made [of w req] by (simp add: call_model_def failure_def)
qed

text \<open>
  The theorem at the three failures, for a valid JPEG: one call, one 500 response.
\<close>

theorem upstream_failure_no_retry_witness:
  "analyze_receipt (world_of (NotOk 503)) (post_of receipt_jpeg)
     = (\<lparr>status = 500, body = FailureBody (MsgGeminiStatus 503)\<rparr>, 1) \<and>
   analyze_receipt (world_of NoGeneratedText) (post_of receipt_jpeg)
     = (\<lparr>status = 500, body = FailureBody MsgNoContent\<rparr>, 1) \<and>
   analyze_receipt (world_of TextNotJson) (post_of receipt_jpeg)
     = (\<lparr>status = 500, body = FailureBody MsgParse\<rparr>, 1)"
proof -
  have s: "snd (analyze_receipt (world_of u) (post_of receipt_jpeg)) = 1" for u
    unfolding post_jpeg_reaches_model
    by (simp add: call_model_def split: Upstream.splits sum.splits)
  have u: "upstream (world_of u) = u" for u by (simp add: world_of_def)
  have a: "fst (analyze_receipt (world_of (NotOk 503)) (post_of receipt_jpeg))
     = \<lparr>status = 500, body = FailureBody (MsgGeminiStatus 503)\<rparr>"
    using upstream_failure_no_retry [of "world_of (NotOk 503)" "post_of receipt_jpeg"] s u by simp
  have b: "fst (analyze_receipt (world_of NoGeneratedText) (post_of receipt_jpeg))
     = \<lparr>status = 500, body = FailureBody MsgNoContent\<rparr>"
    using upstream_failure_no_retry [of "world_of NoGeneratedText" "post_of receipt_jpeg"] s u by simp
  have c: "fst (analyze_receipt (world_of TextNotJson) (post_of receipt_jpeg))
     = \<lparr>status = 500, body = FailureBody MsgParse\<rparr>"
    using upstream_failure_no_retry [of "world_of TextNotJson" "post_of receipt_jpeg"] s u by simp
  show ?thesis
    using a b c s by (simp add: prod_eq_iff)
qed

section \<open>Results on the sign-up form\<close>

text \<open>
  Claim C6, as amended. A sign-up submission whose password has fewer than 6
  UTF-16 code units, which is what \<^verbatim>\<open>password.length\<close> counts, ends in a
  validation error and makes no network call: the error is the mismatch text when
  the confirmation differs and the too-short text otherwise, the client-side limiter
  is not even consulted, and nothing is sent to the authentication service.
\<close>

theorem short_password_rejected:
  assumes "length (password formData) < 6"
  shows "network_calls (handleSignUp sanitizeInput formData now now2 storage reply) = [] \<and>
         shown_error (handleSignUp sanitizeInput formData now now2 storage reply)
           = Some (if password formData \<noteq> confirmPassword formData
                   then ErrPasswordsDiffer else ErrPasswordTooShort) \<and>
         storage_after (handleSignUp sanitizeInput formData now now2 storage reply) = storage \<and>
         \<not> navigated (handleSignUp sanitizeInput formData now now2 storage reply)"
proof (cases "password formData = confirmPassword formData")
  case True
  then show ?thesis unfolding handleSignUp_def using assms by (simp only: if_True if_False not_not refl) simp
next
  case False
  then show ?thesis unfolding handleSignUp_def by simp
qed

text \<open>
  The theorem at a five-character password; an eight-character one does reach the
  call.
\<close>

theorem short_password_rejected_witness:
  "length (password short_form) = 5 \<and>
   network_calls (handleSignUp sanitize_plain short_form 0 0 Map.empty ReplySession) = [] \<and>
   shown_error (handleSignUp sanitize_plain short_form 0 0 Map.empty ReplySession)
     = Some ErrPasswordTooShort \<and>
   network_calls (handleSignUp sanitize_plain long_form 0 0 Map.empty ReplySession)
     = [SignUp (ascii ''ana@example.org'') (ascii ''abc12345'') (ascii ''Ana'')]"
proof -
  have l: "length (password short_form) < 6" "length (password short_form) = 5"
    by (simp_all add: short_form_def ascii_def)
  have e: "password short_form = confirmPassword short_form"
    by (simp add: short_form_def)
  have c: "network_calls (handleSignUp sanitize_plain long_form 0 0 Map.empty ReplySession)
     = [SignUp (ascii ''ana@example.org'') (ascii ''abc12345'') (ascii ''Ana'')]"
    by (simp add: handleSignUp_def long_form_def ascii_def isAllowed_def Let_def sanitize_plain_def)
  show ?thesis
    using short_password_rejected [OF l(1), of sanitize_plain 0 0 Map.empty ReplySession] l(2) e c
    by simp
qed

text \<open>
  Claim C6 as stated counts characters. A password of three characters outside
  the basic plane has fewer than 6 characters and a \<^verbatim>\<open>length\<close> of 6: it passes
  the test and is sent to the authentication service.
\<close>

theorem short_password_counterexample:
  "code_points (password faces_form) = 3 \<and>
   length (password faces_form) = 6 \<and>
   shown_error (handleSignUp sanitize_plain faces_form 0 0 Map.empty ReplySession) = None \<and>
   network_calls (handleSignUp sanitize_plain faces_form 0 0 Map.empty ReplySession)
     = [SignUp (ascii ''ana@example.org'') three_faces (ascii ''Ana'')]"
  by (simp add: handleSignUp_def faces_form_def three_faces_def isAllowed_def Let_def
      is_high_surrogate_def is_low_surrogate_def sanitize_plain_def)

section \<open>Results on the expense status\<close>

lemma update_expense_other_rows:
  "i \<noteq> expenseId \<Longrightarrow> expenses (snd (update_expense db uid expenseId change)) i = expenses db i"
  by (auto simp: update_expense_def split: option.splits)

lemma update_expense_profiles:
  "profiles (snd (update_expense db uid expenseId change)) = profiles db"
  by (auto simp: update_expense_def split: option.splits)

lemma update_expense_row:
  "expenses (snd (update_expense db uid expenseId change)) expenseId = Some new \<Longrightarrow>
   expenses db expenseId = Some old \<Longrightarrow>
   new = old \<or> (new = change old \<and> policy_accepts db uid old \<and> policy_accepts db uid new)"
  by (auto simp: update_expense_def split: option.splits if_splits)

lemma status_change_needs_admin:
  assumes "policy_accepts db uid old" "policy_accepts db uid new"
      and "row_status new \<noteq> row_status old"
  shows "admins_update_all db uid"
  using assms by (auto simp: policy_accepts_def users_update_own_pending_def)

lemma update_expense_status:
  assumes "status_in db i = Some s"
      and "status_in (snd (update_expense db uid expenseId change)) i = Some s'"
      and "s' \<noteq> s"
  shows "get_current_user_role db uid = Some ADMIN \<and> i = expenseId \<and>
         (\<exists>old. expenses db i = Some old \<and> s' = row_status (change old))"
proof -
  obtain old where old: "expenses db i = Some old" "row_status old = s"
    using assms(1) by (auto simp: status_in_def)
  obtain new where new: "expenses (snd (update_expense db uid expenseId change)) i = Some new"
      "row_status new = s'"
    using assms(2) by (auto simp: status_in_def)
  have i: "i = expenseId"
    using update_expense_other_rows [of i expenseId db uid change] old new assms(3) by auto
  from update_expense_row [OF new(1) [unfolded i] old(1) [unfolded i]] old new assms(3)
  have ch: "new = change old" "policy_accepts db uid old" "policy_accepts db uid new" by auto
  have "admins_update_all db uid"
    using status_change_needs_admin [OF ch(2) ch(3)] old new assms(3) by simp
  then show ?thesis using i old new ch by (auto simp: admins_update_all_def)
qed

text \<open>
  Claim C3, as amended. Whatever update the row policies let through, a change of
  an expense's status is made by a user whose profile role is \<^verbatim>\<open>ADMIN\<close>. The
  approve action can only change a status to \<^verbatim>\<open>APPROVED\<close>, the reject action only
  to \<^verbatim>\<open>REJECTED\<close>. The page offers the two actions only when the profile it has
  loaded has the role \<^verbatim>\<open>ADMIN\<close> and the row is listed as \<^verbatim>\<open>PENDING\<close>; through
  its buttons, when the listed copy of the row is the row of the database, the
  change is from \<^verbatim>\<open>PENDING\<close> to \<^verbatim>\<open>APPROVED\<close> or to \<^verbatim>\<open>REJECTED\<close>. (Nothing is
  said of the direction of other admin updates: neither the policies nor the two
  actions test the current status.)
\<close>

theorem status_change_by_admin_only:
  "(status_in db i = Some s \<and>
    status_in (snd (update_expense db uid expenseId change)) i = Some s' \<and> s' \<noteq> s
      \<longrightarrow> get_current_user_role db uid = Some ADMIN) \<and>
   (status_in db i = Some s \<and>
    status_in (snd (approveExpense db uid profile now expenseId)) i = Some s' \<and> s' \<noteq> s
      \<longrightarrow> get_current_user_role db uid = Some ADMIN \<and> s' = APPROVED) \<and>
   (status_in db i = Some s \<and>
    status_in (snd (rejectExpense db uid profile now selected reason)) i = Some s' \<and> s' \<noteq> s
      \<longrightarrow> get_current_user_role db uid = Some ADMIN \<and> s' = REJECTED) \<and>
   (click_approve db uid profile now shown = Some out \<or>
    click_reject db uid profile now shown reason = Some out
      \<longrightarrow> (\<exists>p. profile = Some p \<and> profile_role p = ADMIN) \<and> row_status shown = PENDING) \<and>
   (expenses db (row_id shown) = Some shown \<and> status_in db i = Some s \<and>
    (click_approve db uid profile now shown = Some out \<or>
     click_reject db uid profile now shown reason = Some out) \<and>
    status_in (snd out) i = Some s' \<and> s' \<noteq> s
      \<longrightarrow> get_current_user_role db uid = Some ADMIN \<and> review_transition s s')"
proof (intro conjI impI)
  assume "status_in db i = Some s \<and>
    status_in (snd (update_expense db uid expenseId change)) i = Some s' \<and> s' \<noteq> s"
  then show "get_current_user_role db uid = Some ADMIN"
    using update_expense_status by blast
next
  assume a: "status_in db i = Some s \<and>
    status_in (snd (approveExpense db uid profile now expenseId)) i = Some s' \<and> s' \<noteq> s"
  then have "status_in (snd (update_expense db uid expenseId
       (\<lambda>r. r\<lparr>row_status := APPROVED, row_approver_id := approver_of profile r,
               row_approved_at := Some now\<rparr>))) i = Some s'"
    by (simp add: approveExpense_def)
  from update_expense_status [OF _ this] a
  show "get_current_user_role db uid = Some ADMIN" "s' = APPROVED" by auto
next
  assume a: "status_in db i = Some s \<and>
    status_in (snd (rejectExpense db uid profile now selected reason)) i = Some s' \<and> s' \<noteq> s"
  then obtain shown where sh: "selected = Some shown" "js_trim reason \<noteq> []"
    by (cases selected) (auto simp: rejectExpense_def split: if_splits)
  then have "status_in (snd (update_expense db uid (row_id shown)
       (\<lambda>r. r\<lparr>row_status := REJECTED, row_approver_id := approver_of profile r,
               row_approved_at := Some now, row_rejection_reason := Some reason\<rparr>))) i = Some s'"
    using a by (simp add: rejectExpense_def)
  from update_expense_status [OF _ this] a
  show "get_current_user_role db uid = Some ADMIN" "s' = REJECTED" by auto
next
  assume "click_approve db uid profile now shown = Some out \<or>
    click_reject db uid profile now shown reason = Some out"
  then have off: "review_offered profile shown"
    by (auto simp: click_approve_def click_reject_def split: if_splits)
  then show "\<exists>p. profile = Some p \<and> profile_role p = ADMIN" "row_status shown = PENDING"
    by (auto simp: review_offered_def split: option.splits)
next
  assume a: "expenses db (row_id shown) = Some shown \<and> status_in db i = Some s \<and>
    (click_approve db uid profile now shown = Some out \<or>
     click_reject db uid profile now shown reason = Some out) \<and>
    status_in (snd out) i = Some s' \<and> s' \<noteq> s"
  then have off: "review_offered profile shown"
    by (auto simp: click_approve_def click_reject_def split: if_splits)
  then have pend: "row_status shown = PENDING"
    by (auto simp: review_offered_def split: option.splits)
  from a consider
      (ap) "status_in (snd (approveExpense db uid profile now (row_id shown))) i = Some s'"
    | (rj) "status_in (snd (rejectExpense db uid profile now (Some shown) reason)) i = Some s'"
    using off by (auto simp: click_approve_def click_reject_def)
  then have "get_current_user_role db uid = Some ADMIN \<and> review_transition s s'"
  proof cases
    case ap
    then have u: "status_in (snd (update_expense db uid (row_id shown)
       (\<lambda>r. r\<lparr>row_status := APPROVED, row_approver_id := approver_of profile r,
               row_approved_at := Some now\<rparr>))) i = Some s'"
      by (simp add: approveExpense_def)
    from update_expense_status [OF _ u] a
    have "get_current_user_role db uid = Some ADMIN" "i = row_id shown" "s' = APPROVED" by auto
    then show ?thesis using a pend by (auto simp: status_in_def review_transition_def)
  next
    case rj
    then have r: "js_trim reason \<noteq> []" using a
      by (auto simp: rejectExpense_def split: if_splits)
    then have u: "status_in (snd (update_expense db uid (row_id shown)
       (\<lambda>r. r\<lparr>row_status := REJECTED, row_approver_id := approver_of profile r,
               row_approved_at := Some now, row_rejection_reason := Some reason\<rparr>))) i = Some s'"
      using rj by (simp add: rejectExpense_def)
    from update_expense_status [OF _ u] a
    have "get_current_user_role db uid = Some ADMIN" "i = row_id shown" "s' = REJECTED" by auto
    then show ?thesis using a pend by (auto simp: status_in_def review_transition_def)
  qed
  then show "get_current_user_role db uid = Some ADMIN" "review_transition s s'" by auto
qed

lemma example_roles:
  "get_current_user_role example_db (Some ''adm-1'') = Some ADMIN"
  "get_current_user_role example_db (Some ''emp-1'') = Some EMPLOYEE"
  by (simp_all add: get_current_user_role_def example_db_def)

lemma example_rows:
  "expenses example_db ''exp-p'' = Some (example_row ''exp-p'' PENDING)"
  "expenses example_db ''exp-a'' = Some (example_row ''exp-a'' APPROVED)"
  "expenses example_db ''exp-r'' = Some (example_row ''exp-r'' REJECTED)"
  by (simp_all add: example_db_def)

lemma admin_accepts: "policy_accepts example_db (Some ''adm-1'') r"
  by (simp add: policy_accepts_def admins_update_all_def example_roles)

lemma admin_update:
  "expenses example_db i = Some r \<Longrightarrow>
   status_in (snd (update_expense example_db (Some ''adm-1'') i change)) i
     = Some (row_status (change r))"
  by (simp add: update_expense_def admin_accepts status_in_def)

text \<open>
  The theorem at the example database: the administrator approves or rejects the
  pending expense, from the page or by the action itself, and sets the approved one
  back to pending; the employee's own attempt fails the policy check, and the page
  shows an employee no button.
\<close>

theorem status_change_by_admin_only_witness:
  "status_in example_db ''exp-p'' = Some PENDING \<and>
   click_approve example_db (Some ''adm-1'') (Some admin_profile) 1000
       (example_row ''exp-p'' PENDING)
     = Some (approveExpense example_db (Some ''adm-1'') (Some admin_profile) 1000 ''exp-p'') \<and>
   status_in (snd (approveExpense example_db (Some ''adm-1'') (Some admin_profile) 1000
                     ''exp-p'')) ''exp-p'' = Some APPROVED \<and>
   status_in (snd (rejectExpense example_db (Some ''adm-1'') (Some admin_profile) 1000
                     (Some (example_row ''exp-p'' PENDING)) (ascii ''no receipt'')))
     ''exp-p'' = Some REJECTED \<and>
   status_in (snd (update_expense example_db (Some ''adm-1'') ''exp-a'' back_to_pending))
     ''exp-a'' = Some PENDING \<and>
   get_current_user_role example_db (Some ''adm-1'') = Some ADMIN \<and>
   profile_role admin_profile = ADMIN \<and>
   row_status (example_row ''exp-p'' PENDING) = PENDING \<and>
   review_transition PENDING APPROVED \<and>
   fst (approveExpense example_db (Some ''emp-1'') None 1000 ''exp-p'') = PolicyError \<and>
   click_approve example_db (Some ''emp-1'') (Some employee_profile) 1000
       (example_row ''exp-p'' PENDING) = None"
proof -
  let ?shown = "example_row ''exp-p'' PENDING"
  let ?adm = "Some ''adm-1''"
  let ?out = "approveExpense example_db ?adm (Some admin_profile) 1000 ''exp-p''"
  have cur: "expenses example_db (row_id ?shown) = Some ?shown"
    by (simp add: example_row_def example_db_def)
  have s: "status_in example_db ''exp-p'' = Some PENDING"
    "status_in example_db ''exp-a'' = Some APPROVED"
    by (simp_all add: status_in_def example_rows example_row_def)
  have off: "review_offered (Some admin_profile) ?shown"
    by (simp add: review_offered_def admin_profile_def example_row_def)
  have rid: "row_id ?shown = ''exp-p''" by (simp add: example_row_def)
  have ap: "status_in (snd ?out) ''exp-p'' = Some APPROVED"
    unfolding approveExpense_def by (simp add: admin_update [OF example_rows(1)])
  have ck: "click_approve example_db ?adm (Some admin_profile) 1000 ?shown = Some ?out"
    unfolding click_approve_def using off by (simp add: rid)
  have tr: "js_trim (ascii ''no receipt'') \<noteq> []"
    by (simp add: ascii_def js_trim_def is_space_def)
  have rj: "status_in (snd (rejectExpense example_db ?adm (Some admin_profile) 1000
                     (Some ?shown) (ascii ''no receipt''))) ''exp-p'' = Some REJECTED"
    unfolding rejectExpense_def using tr
    by (simp add: rid admin_update [OF example_rows(1)])
  have bp: "status_in (snd (update_expense example_db ?adm ''exp-a'' back_to_pending))
     ''exp-a'' = Some PENDING"
    by (simp add: admin_update [OF example_rows(2)] back_to_pending_def)
  have emp: "fst (approveExpense example_db (Some ''emp-1'') None 1000 ''exp-p'') = PolicyError"
    by (simp add: approveExpense_def update_expense_def example_rows policy_accepts_def
        users_update_own_pending_def admins_update_all_def example_roles example_row_def)
  have noc: "click_approve example_db (Some ''emp-1'') (Some employee_profile) 1000 ?shown = None"
    by (simp add: click_approve_def review_offered_def employee_profile_def)
  note th = status_change_by_admin_only [of example_db "''exp-p''" PENDING ?adm
        "''exp-p''" id APPROVED "Some admin_profile" 1000 None "[]" ?shown ?out]
  note thr = status_change_by_admin_only [of example_db "''exp-p''" PENDING ?adm
        "''exp-p''" id REJECTED "Some admin_profile" 1000 "Some ?shown" "ascii ''no receipt''"
        ?shown ?out]
  note thu = status_change_by_admin_only [of example_db "''exp-a''" APPROVED ?adm
        "''exp-a''" back_to_pending PENDING "Some admin_profile" 1000 None "[]" ?shown ?out]
  have r1: "get_current_user_role example_db ?adm = Some ADMIN"
    using thu [THEN conjunct1] s(2) bp by simp
  have r2: "get_current_user_role example_db ?adm = Some ADMIN \<and> APPROVED = APPROVED"
    using th [THEN conjunct2, THEN conjunct1] s(1) ap by simp
  have r3: "get_current_user_role example_db ?adm = Some ADMIN \<and> REJECTED = REJECTED"
    using thr [THEN conjunct2, THEN conjunct2, THEN conjunct1] s(1) rj by simp
  have r4: "(\<exists>p. Some admin_profile = Some p \<and> profile_role p = ADMIN) \<and>
        row_status ?shown = PENDING"
    using th [THEN conjunct2, THEN conjunct2, THEN conjunct2, THEN conjunct1] ck by blast
  have r5: "get_current_user_role example_db ?adm = Some ADMIN \<and>
        review_transition PENDING APPROVED"
    using th [THEN conjunct2, THEN conjunct2, THEN conjunct2, THEN conjunct2] cur s(1) ck ap
    by blast
  have r4a: "profile_role admin_profile = ADMIN" using r4 by simp
  have r4b: "row_status ?shown = PENDING" using r4 by blast
  have r5b: "review_transition PENDING APPROVED" using r5 by blast
  show ?thesis using s(1) ck ap rj bp r1 r4a r4b r5b emp noc by (intro conjI)
qed

text \<open>
  Claim C3 as stated excludes every transition but the two out of \<^verbatim>\<open>PENDING\<close>.
  \<^verbatim>\<open>approveExpense\<close> run by the administrator on the rejected expense makes it
  approved, and the policies let the administrator set the approved expense back to
  pending.
\<close>

theorem status_transition_counterexample:
  "status_in example_db ''exp-r'' = Some REJECTED \<and>
   status_in (snd (approveExpense example_db (Some ''adm-1'') (Some admin_profile) 1000 ''exp-r''))
     ''exp-r'' = Some APPROVED \<and>
   status_in example_db ''exp-a'' = Some APPROVED \<and>
   status_in (snd (update_expense example_db (Some ''adm-1'') ''exp-a'' back_to_pending))
     ''exp-a'' = Some PENDING"
proof -
  have a: "status_in example_db ''exp-r'' = Some REJECTED"
    "status_in example_db ''exp-a'' = Some APPROVED"
    by (simp_all add: status_in_def example_rows example_row_def)
  have b: "status_in (snd (approveExpense example_db (Some ''adm-1'') (Some admin_profile) 1000
             ''exp-r'')) ''exp-r'' = Some APPROVED"
    unfolding approveExpense_def by (simp add: admin_update [OF example_rows(3)])
  have c: "status_in (snd (update_expense example_db (Some ''adm-1'') ''exp-a'' back_to_pending))
     ''exp-a'' = Some PENDING"
    by (simp add: admin_update [OF example_rows(2)] back_to_pending_def)
  show ?thesis using a b c by (intro conjI)
qed

section \<open>Results on the upload page\<close>

















end
